theory Spec2Isabelle
  imports Complex_Main
begin

section \<open>Numbers\<close>

text \<open>
  The program computes with Python floats. They are modelled as exact rationals: the
  rounding of double precision and the non-finite values (inf, nan) are outside the
  model. Python's \<open>int(x)\<close> on a float truncates towards zero.
\<close>

definition py_int :: "rat \<Rightarrow> int" where
  "py_int x = (if 0 \<le> x then \<lfloor>x\<rfloor> else \<lceil>x\<rceil>)"

text \<open>
  \<open>[float(b) for b in values]\<close>: the builtin \<open>float\<close> is a parameter \<open>fl\<close>
  (\<open>None\<close> where it raises ValueError); the comprehension raises at the first
  element that does not parse.
\<close>

fun float_all :: "(string \<Rightarrow> rat option) \<Rightarrow> string list \<Rightarrow> rat list option" where
  "float_all fl [] = Some []"
| "float_all fl (b # bs) =
     (case fl b of None \<Rightarrow> None
      | Some x \<Rightarrow> (case float_all fl bs of None \<Rightarrow> None | Some xs \<Rightarrow> Some (x # xs)))"

section \<open>EncodingWorker.calculate_video_bitrate\<close>

datatype calc_error =
  Invalid_target_size | Invalid_duration | Invalid_audio_bitrate_values | Audio_bitrate_values_missing

text \<open>
  \<open>self_target_size_mb\<close> is the attribute \<open>self.target_size_mb\<close> (the text of the
  input field); the parameter \<open>target_size_mb\<close> of the source is overwritten before it
  is read, so it is kept and ignored. \<open>duration\<close> is \<open>None\<close> or a float.
\<close>

definition calculate_video_bitrate ::
  "(string \<Rightarrow> rat option) \<Rightarrow> string \<Rightarrow> rat option \<Rightarrow> string \<Rightarrow> string list \<Rightarrow> calc_error + int" where
  "calculate_video_bitrate fl self_target_size_mb duration target_size_mb audio_bitrate_values =
     (case fl self_target_size_mb of
        None \<Rightarrow> Inl Invalid_target_size
      | Some target \<Rightarrow>
          (case duration of
             None \<Rightarrow> Inl Invalid_duration
           | Some d \<Rightarrow>
               if d \<le> 0 then Inl Invalid_duration
               else if audio_bitrate_values = [] then Inl Audio_bitrate_values_missing
               else (case float_all fl audio_bitrate_values of
                       None \<Rightarrow> Inl Invalid_audio_bitrate_values
                     | Some bitrates \<Rightarrow>
                         let total_audio_bitrate = sum_list bitrates;
                             audio_bitrate_bps = total_audio_bitrate * 1000;
                             target_size_bits = target * 8 * 1024 * 1024;
                             total_bitrate_bps = target_size_bits / d;
                             video_bitrate_bps = total_bitrate_bps - audio_bitrate_bps;
                             video_bitrate_kbps = video_bitrate_bps / 1000
                         in Inr (py_int video_bitrate_kbps))))"

section \<open>EncodingWorker.get_audio_bitrate\<close>

text \<open>
  A track of the inspector's JSON output: its \<open>@type\<close> and its \<open>BitRate\<close> field
  (\<open>None\<close> when the key is absent). Strings are ASCII.
\<close>

record track =
  track_type :: string
  BitRate :: "string option"

definition lower_char :: "char \<Rightarrow> char" where
  "lower_char c =
     (let n = (of_char c :: nat) in if 65 \<le> n \<and> n \<le> 90 then char_of (n + 32) else c)"

definition lower :: "string \<Rightarrow> string" where
  "lower s = map lower_char s"

text \<open>
  The loop over the audio tracks: a bitrate that is present, not empty and not "n/a" in
  any letter case adds \<open>float(bitrate_str) / 1000\<close>; a string that \<open>float\<close> rejects
  raises, which is \<open>None\<close> here.
\<close>

fun sum_audio_bitrate :: "(string \<Rightarrow> rat option) \<Rightarrow> track list \<Rightarrow> rat \<Rightarrow> rat option" where
  "sum_audio_bitrate fl [] audio_bitrate_total = Some audio_bitrate_total"
| "sum_audio_bitrate fl (tr # trs) audio_bitrate_total =
     (case BitRate tr of
        None \<Rightarrow> sum_audio_bitrate fl trs audio_bitrate_total
      | Some bitrate_str \<Rightarrow>
          if bitrate_str \<noteq> [] \<and> lower bitrate_str \<noteq> ''n/a'' then
            (case fl bitrate_str of
               None \<Rightarrow> None
             | Some x \<Rightarrow> sum_audio_bitrate fl trs (audio_bitrate_total + x / 1000))
          else sum_audio_bitrate fl trs audio_bitrate_total)"

text \<open>
  \<open>tracks\<close> is the track list of the inspector's output, \<open>None\<close> when the call or the
  JSON decoding raises. Every exception makes the function return \<open>None\<close>.
\<close>

definition get_audio_bitrate :: "(string \<Rightarrow> rat option) \<Rightarrow> track list option \<Rightarrow> int option" where
  "get_audio_bitrate fl tracks =
     (case tracks of
        None \<Rightarrow> None
      | Some trs \<Rightarrow>
          (let audio_tracks = filter (\<lambda>tr. track_type tr = ''Audio'') trs
           in case sum_audio_bitrate fl audio_tracks 0 of
                None \<Rightarrow> None
              | Some audio_bitrate_total \<Rightarrow> Some (py_int audio_bitrate_total)))"



section \<open>Percent tokens in the transcoder's output\<close>

text \<open>
  \<open>re.search(r'(\d+\.\d+) %', line)\<close> and \<open>re.search(r'(\d+) %', line)\<close>. The digits
  are the ASCII digits. Both \<open>\d+\<close> are greedy and what follows them is not a digit, so
  a match at a position takes the whole run of digits there; \<open>search\<close> returns the
  match at the leftmost position that has one.
\<close>

definition is_digit :: "char \<Rightarrow> bool" where
  "is_digit c = (c \<in> set ''0123456789'')"

definition match_decimal :: "string \<Rightarrow> (string \<times> string) option" where
  "match_decimal s =
     (let d1 = takeWhile is_digit s; r1 = dropWhile is_digit s
      in if d1 = [] then None
         else (case r1 of
                 c # r2 \<Rightarrow>
                   if c = CHR ''.'' then
                     (let d2 = takeWhile is_digit r2; r3 = dropWhile is_digit r2
                      in if d2 = [] then None
                         else if take 2 r3 = '' %'' then Some (d1, d2) else None)
                   else None
               | [] \<Rightarrow> None))"

definition match_integer :: "string \<Rightarrow> string option" where
  "match_integer s =
     (let d = takeWhile is_digit s; r = dropWhile is_digit s
      in if d = [] then None else if take 2 r = '' %'' then Some d else None)"

fun search_decimal :: "string \<Rightarrow> (string \<times> string) option" where
  "search_decimal [] = None"
| "search_decimal (c # cs) =
     (case match_decimal (c # cs) of Some m \<Rightarrow> Some m | None \<Rightarrow> search_decimal cs)"

fun search_integer :: "string \<Rightarrow> string option" where
  "search_integer [] = None"
| "search_integer (c # cs) =
     (case match_integer (c # cs) of Some m \<Rightarrow> Some m | None \<Rightarrow> search_integer cs)"

text \<open>The value of a string of digits, as \<open>int\<close> reads it, and of \<open>d1.d2\<close>, as \<open>float\<close> does.\<close>

definition digit_val :: "char \<Rightarrow> nat" where
  "digit_val c = of_char c - 48"

definition digits_val :: "string \<Rightarrow> nat" where
  "digits_val ds = foldl (\<lambda>n c. 10 * n + digit_val c) 0 ds"

definition decimal_val :: "string \<Rightarrow> string \<Rightarrow> rat" where
  "decimal_val d1 d2 = of_nat (digits_val d1) + of_nat (digits_val d2) / 10 ^ length d2"





section \<open>EncodingWorker.parse_handbrake_output and update_overall_progress\<close>

datatype signal = Overall_progress int | Current_file_progress int

text \<open>
  The signals a line makes the worker emit, in order; \<open>None\<close> is the ZeroDivisionError
  of a worker with no files. \<open>processed_files\<close> and \<open>total_files\<close> are the worker's
  attributes.
\<close>

definition parse_handbrake_output :: "nat \<Rightarrow> nat \<Rightarrow> string \<Rightarrow> signal list option" where
  "parse_handbrake_output processed_files total_files line =
     (case search_decimal line of
        Some (d1, d2) \<Rightarrow>
          (let percentage = decimal_val d1 d2
           in if total_files = 0 then None
              else Some [Overall_progress
                           (py_int ((of_nat processed_files + percentage / 100) / of_nat total_files * 100)),
                         Current_file_progress (py_int percentage)])
      | None \<Rightarrow>
          (case search_integer line of
             Some d \<Rightarrow>
               (let percentage = int (digits_val d)
                in if total_files = 0 then None
                   else Some [Overall_progress
                                (py_int ((of_nat processed_files + of_int percentage / 100)
                                          / of_nat total_files * 100)),
                              Current_file_progress percentage])
           | None \<Rightarrow> Some []))"

definition update_overall_progress :: "nat \<Rightarrow> nat \<Rightarrow> rat \<Rightarrow> int option" where
  "update_overall_progress total_files processed current_file_progress =
     (if total_files = 0 then None
      else Some (py_int ((of_nat processed + current_file_progress / 100) / of_nat total_files * 100)))"

section \<open>EncodingWorker.estimate_rf_value\<close>

text \<open>
  \<open>round(x, 2)\<close>: to the nearest multiple of 1/100, a tie going to the even multiple.
\<close>

definition py_round2 :: "rat \<Rightarrow> rat" where
  "py_round2 x =
     (let y = x * 100; f = \<lfloor>y\<rfloor>; r = y - of_int f
      in if r < 1 / 2 then of_int f / 100
         else if 1 / 2 < r then of_int (f + 1) / 100
         else if even f then of_int f / 100 else of_int (f + 1) / 100)"

text \<open>
  The stream extractor's command line, by option: \<open>-ss\<close>, \<open>-i\<close>, \<open>-t\<close>, \<open>-c\<close> and the
  output file, which is a file name joined to the destination folder.
\<close>

record ffmpeg_cmd =
  opt_ss :: rat
  opt_i :: string
  opt_t :: rat
  opt_c :: string
  out_folder :: string
  out_name :: string

datatype call = Run_ffmpeg ffmpeg_cmd | Run_sample_encode rat

text \<open>
  The two temporary files of the destination folder (whether the extracted sample
  exists, and the size of the encoded sample when it exists) and the external commands
  run so far, oldest first.
\<close>

record files =
  temp_sample_file :: bool
  temp_encoded_sample :: "nat option"
  calls :: "call list"

text \<open>
  The external tools are parameters. \<open>ffmpeg cmd\<close> gives the return code and whether
  the output file was written; \<open>encode_sample rf\<close>, the transcoder run on the sample at
  quality \<open>rf\<close>, gives the return code and the size of the output file it wrote, if
  it wrote one. The rest of the sample encode's command line is the same at every
  iteration.
\<close>

definition run_ffmpeg :: "(ffmpeg_cmd \<Rightarrow> int \<times> bool) \<Rightarrow> ffmpeg_cmd \<Rightarrow> files \<Rightarrow> int \<times> files" where
  "run_ffmpeg ffmpeg cmd st =
     (let st1 = st\<lparr>calls := calls st @ [Run_ffmpeg cmd]\<rparr>
      in (fst (ffmpeg cmd),
          if snd (ffmpeg cmd) then st1\<lparr>temp_sample_file := True\<rparr> else st1))"

definition run_sample_encode :: "(rat \<Rightarrow> int \<times> nat option) \<Rightarrow> rat \<Rightarrow> files \<Rightarrow> int \<times> files" where
  "run_sample_encode encode_sample rf st =
     (let st1 = st\<lparr>calls := calls st @ [Run_sample_encode rf]\<rparr>
      in (fst (encode_sample rf),
          case snd (encode_sample rf) of
            None \<Rightarrow> st1
          | Some n \<Rightarrow> st1\<lparr>temp_encoded_sample := Some n\<rparr>))"

definition sample_percentage :: rat where
  "sample_percentage = 5 / 100"

definition sample_duration_of :: "rat \<Rightarrow> rat" where
  "sample_duration_of duration = duration * sample_percentage"

definition sample_start_of :: "rat \<Rightarrow> rat" where
  "sample_start_of duration = (duration - sample_duration_of duration) / 2"

definition sample_cmd :: "string \<Rightarrow> string \<Rightarrow> rat \<Rightarrow> ffmpeg_cmd" where
  "sample_cmd destination_folder file_path duration =
     \<lparr>opt_ss = sample_start_of duration, opt_i = file_path,
      opt_t = sample_duration_of duration, opt_c = ''copy'',
      out_folder = destination_folder, out_name = ''temp_sample.mkv''\<rparr>"

definition estimated_total_size_mb :: "nat \<Rightarrow> rat \<Rightarrow> rat \<Rightarrow> rat \<Rightarrow> rat" where
  "estimated_total_size_mb sample_size_bytes duration sample_duration total_audio_bitrate_kbps =
     (let estimated_video_size_bytes = of_nat sample_size_bytes * (duration / sample_duration);
          total_audio_size_bytes = (total_audio_bitrate_kbps * 1000 / 8) * duration;
          estimated_total_size_bytes = estimated_video_size_bytes + total_audio_size_bytes
      in estimated_total_size_bytes / (1024 * 1024))"

definition acceptable_lower_size :: "rat \<Rightarrow> rat" where
  "acceptable_lower_size target_size_mb = target_size_mb * (95 / 100)"

definition acceptable_upper_size :: "rat \<Rightarrow> rat" where
  "acceptable_upper_size target_size_mb = target_size_mb * (105 / 100)"

record search =
  lower_rf :: rat
  upper_rf :: rat
  rf_value :: rat
  iteration :: nat

definition max_iterations :: nat where
  "max_iterations = 10"

definition initial_search :: search where
  "initial_search = \<lparr>lower_rf = 18, upper_rf = 40, rf_value = (18 + 40) / 2, iteration = 0\<rparr>"

text \<open>
  One pass through the body of the \<open>while\<close> loop. \<open>Return_None\<close> is a \<open>return None\<close>
  or a raised exception (a division by a zero sample duration, a bitrate that
  \<open>float\<close> rejects), which the function's \<open>except\<close> turns into \<open>None\<close>; \<open>Break\<close> is
  the \<open>break\<close>; \<open>Continue\<close> reaches the end of the body.
\<close>

datatype body_result = Return_None files | Break search files | Continue search files

definition loop_body ::
  "(string \<Rightarrow> rat option) \<Rightarrow> (rat \<Rightarrow> int \<times> nat option) \<Rightarrow> rat \<Rightarrow> rat \<Rightarrow> rat \<Rightarrow> string list
     \<Rightarrow> search \<Rightarrow> files \<Rightarrow> body_result" where
  "loop_body fl encode_sample duration sample_duration target_size_mb audio_bitrate_values s st =
     (let s1 = s\<lparr>iteration := iteration s + 1\<rparr>;
          returncode = fst (run_sample_encode encode_sample (rf_value s1) st);
          st1 = snd (run_sample_encode encode_sample (rf_value s1) st)
      in if returncode \<noteq> 0 then Return_None st1
         else (case temp_encoded_sample st1 of
                 None \<Rightarrow> Return_None st1
               | Some sample_size_bytes \<Rightarrow>
                   if sample_duration = 0 then Return_None st1
                   else (case float_all fl audio_bitrate_values of
                           None \<Rightarrow> Return_None st1
                         | Some bitrates \<Rightarrow>
                             (let est = estimated_total_size_mb sample_size_bytes duration
                                          sample_duration (sum_list bitrates)
                              in if acceptable_lower_size target_size_mb \<le> est
                                    \<and> est \<le> acceptable_upper_size target_size_mb
                                 then Break s1 st1
                                 else (let s2 = (if acceptable_upper_size target_size_mb < est
                                                 then s1\<lparr>lower_rf := rf_value s1\<rparr>
                                                 else s1\<lparr>upper_rf := rf_value s1\<rparr>);
                                           s3 = s2\<lparr>rf_value := (lower_rf s2 + upper_rf s2) / 2\<rparr>
                                       in Continue s3 (st1\<lparr>temp_encoded_sample := None\<rparr>))))))"

text \<open>
  The \<open>while iteration < max_iterations\<close> loop: \<open>None\<close> when the function has
  returned \<open>None\<close> inside the loop, otherwise the search state the loop ends with.
\<close>

function bisection_loop ::
  "(string \<Rightarrow> rat option) \<Rightarrow> (rat \<Rightarrow> int \<times> nat option) \<Rightarrow> rat \<Rightarrow> rat \<Rightarrow> rat \<Rightarrow> string list
     \<Rightarrow> search \<Rightarrow> files \<Rightarrow> search option \<times> files" where
  "bisection_loop fl encode_sample duration sample_duration target_size_mb audio_bitrate_values s st =
     (if iteration s < max_iterations then
        (case loop_body fl encode_sample duration sample_duration target_size_mb
                audio_bitrate_values s st of
           Return_None st' \<Rightarrow> (None, st')
         | Break s' st' \<Rightarrow> (Some s', st')
         | Continue s' st' \<Rightarrow>
             bisection_loop fl encode_sample duration sample_duration target_size_mb
               audio_bitrate_values s' st')
      else (Some s, st))"
  by pat_completeness auto
termination
proof (relation "measure (\<lambda>(fl, encode_sample, duration, sample_duration, target_size_mb,
                            audio_bitrate_values, s, st). max_iterations - iteration s)")
  show "wf (measure (\<lambda>(fl, encode_sample, duration, sample_duration, target_size_mb,
                       audio_bitrate_values, s, st). max_iterations - iteration s))"
    by simp
next
  fix fl :: "string \<Rightarrow> rat option" and encode_sample :: "rat \<Rightarrow> int \<times> nat option"
    and duration sample_duration target_size_mb :: rat and audio_bitrate_values :: "string list"
    and s s' :: search and st st' :: files
  assume lt: "iteration s < max_iterations"
    and body: "loop_body fl encode_sample duration sample_duration target_size_mb
                 audio_bitrate_values s st = Continue s' st'"
  from body have "iteration s' = iteration s + 1"
    by (auto simp: loop_body_def Let_def split: if_splits option.splits)
  with lt show "((fl, encode_sample, duration, sample_duration, target_size_mb,
                   audio_bitrate_values, s', st'),
                  (fl, encode_sample, duration, sample_duration, target_size_mb,
                   audio_bitrate_values, s, st))
                \<in> measure (\<lambda>(fl, encode_sample, duration, sample_duration, target_size_mb,
                              audio_bitrate_values, s, st). max_iterations - iteration s)"
    by simp
qed

declare bisection_loop.simps [simp del]

text \<open>
  After the loop: \<open>os.remove(temp_sample_file)\<close> raises when the file does not exist,
  the encoded sample is removed when it exists, and the candidate is returned rounded.
\<close>

definition clean_up_and_return :: "search \<Rightarrow> files \<Rightarrow> rat option \<times> files" where
  "clean_up_and_return s st =
     (if \<not> temp_sample_file st then (None, st)
      else (Some (py_round2 (rf_value s)),
            st\<lparr>temp_sample_file := False, temp_encoded_sample := None\<rparr>))"

text \<open>
  The start of the function: both temporary files are removed if they exist, then the
  extractor is run on the sample segment.
\<close>

definition extract_sample ::
  "(ffmpeg_cmd \<Rightarrow> int \<times> bool) \<Rightarrow> string \<Rightarrow> string \<Rightarrow> rat \<Rightarrow> files \<Rightarrow> int \<times> files" where
  "extract_sample ffmpeg destination_folder file_path duration st =
     run_ffmpeg ffmpeg (sample_cmd destination_folder file_path duration)
       (st\<lparr>temp_sample_file := False, temp_encoded_sample := None\<rparr>)"

text \<open>
  \<open>duration\<close> is what \<open>get_duration\<close> returns for the file. The result is the
  function's return value with the files and calls it leaves behind.
\<close>

definition estimate_rf_value ::
  "(string \<Rightarrow> rat option) \<Rightarrow> (ffmpeg_cmd \<Rightarrow> int \<times> bool) \<Rightarrow> (rat \<Rightarrow> int \<times> nat option) \<Rightarrow> string
     \<Rightarrow> rat option \<Rightarrow> string \<Rightarrow> rat \<Rightarrow> string list \<Rightarrow> files \<Rightarrow> rat option \<times> files" where
  "estimate_rf_value fl ffmpeg encode_sample destination_folder duration file_path target_size_mb
     audio_bitrate_values st =
     (case duration of
        None \<Rightarrow> (None, st)
      | Some d \<Rightarrow>
          (let sample_duration = sample_duration_of d;
               returncode = fst (extract_sample ffmpeg destination_folder file_path d st);
               st2 = snd (extract_sample ffmpeg destination_folder file_path d st)
           in if returncode \<noteq> 0 then (None, st2)
              else (case bisection_loop fl encode_sample d sample_duration target_size_mb
                           audio_bitrate_values initial_search st2 of
                      (None, st3) \<Rightarrow> (None, st3)
                    | (Some s, st3) \<Rightarrow> clean_up_and_return s st3)))"

section \<open>Stand-ins for the external tools\<close>

text \<open>
  Concrete tools for the examples: an extractor that succeeds and writes its output, one
  that fails, a sample encode that fails, and one that always writes a file of the
  given size.
\<close>

definition ffmpeg_ok :: "ffmpeg_cmd \<Rightarrow> int \<times> bool" where
  "ffmpeg_ok cmd = (0, True)"

definition ffmpeg_fails :: "ffmpeg_cmd \<Rightarrow> int \<times> bool" where
  "ffmpeg_fails cmd = (1, False)"

definition encode_fails :: "rat \<Rightarrow> int \<times> nat option" where
  "encode_fails rf = (1, None)"

definition encode_size :: "nat \<Rightarrow> rat \<Rightarrow> int \<times> nat option" where
  "encode_size n rf = (0, Some n)"

definition no_files :: files where
  "no_files = \<lparr>temp_sample_file = False, temp_encoded_sample = None, calls = []\<rparr>"

text \<open>
  What holds of the search state whenever the loop tests its condition: the bounds stay
  inside the initial ones and the candidate is their midpoint.
\<close>

definition search_inv :: "search \<Rightarrow> bool" where
  "search_inv s =
     (18 \<le> lower_rf s \<and> lower_rf s \<le> upper_rf s \<and> upper_rf s \<le> 40
      \<and> rf_value s = (lower_rf s + upper_rf s) / 2)"

text \<open>The qualities of the sample encodes among a list of calls.\<close>

fun sample_encodes :: "call list \<Rightarrow> rat list" where
  "sample_encodes [] = []"
| "sample_encodes (Run_sample_encode rf # cs) = rf # sample_encodes cs"
| "sample_encodes (Run_ffmpeg cmd # cs) = sample_encodes cs"

definition calls_made :: "files \<Rightarrow> files \<Rightarrow> call list" where
  "calls_made st st' = drop (length (calls st)) (calls st')"

text \<open>
  The state in which the loop starts its pass number \<open>k + 1\<close>, when the \<open>k\<close> passes
  before it all reached the end of the body.
\<close>

fun pass :: "(string \<Rightarrow> rat option) \<Rightarrow> (rat \<Rightarrow> int \<times> nat option) \<Rightarrow> rat \<Rightarrow> rat \<Rightarrow> rat \<Rightarrow> string list
     \<Rightarrow> nat \<Rightarrow> search \<Rightarrow> files \<Rightarrow> (search \<times> files) option" where
  "pass fl encode_sample duration sample_duration target_size_mb audio_bitrate_values 0 s st =
     Some (s, st)"
| "pass fl encode_sample duration sample_duration target_size_mb audio_bitrate_values (Suc k) s st =
     (if iteration s < max_iterations then
        (case loop_body fl encode_sample duration sample_duration target_size_mb
                audio_bitrate_values s st of
           Continue s' st' \<Rightarrow>
             pass fl encode_sample duration sample_duration target_size_mb audio_bitrate_values
               k s' st'
         | Break s' st' \<Rightarrow> None
         | Return_None st' \<Rightarrow> None)
      else None)"

definition encode_by_quality :: "rat \<Rightarrow> int \<times> nat option" where
  "encode_by_quality rf = (0, Some (nat \<lfloor>(40 - rf) * 80000\<rfloor>))"

section \<open>EncodingWorker.run\<close>

subsection \<open>Strings\<close>

text \<open>
  \<open>str.strip()\<close> on ASCII text, \<open>str.split(',')\<close>, \<open>str(n)\<close> for an int and
  \<open>os.path.basename\<close> with the POSIX separator.
\<close>

definition is_space :: "char \<Rightarrow> bool" where
  "is_space c = (let n = (of_char c :: nat) in (9 \<le> n \<and> n \<le> 13) \<or> (28 \<le> n \<and> n \<le> 32))"

definition strip :: "string \<Rightarrow> string" where
  "strip s = rev (dropWhile is_space (rev (dropWhile is_space s)))"

fun split_comma :: "string \<Rightarrow> string list" where
  "split_comma [] = [[]]"
| "split_comma (c # cs) =
     (if c = CHR '','' then [] # split_comma cs
      else (case split_comma cs of
              [] \<Rightarrow> [[c]]
            | x # xs \<Rightarrow> (c # x) # xs))"

fun digits_of :: "nat \<Rightarrow> string" where
  "digits_of n =
     (if n < 10 then [char_of (48 + n)]
      else digits_of (n div 10) @ [char_of (48 + n mod 10)])"

declare digits_of.simps [simp del]

definition str_int :: "int \<Rightarrow> string" where
  "str_int i = (if i < 0 then CHR ''-'' # digits_of (nat (- i)) else digits_of (nat i))"

definition basename :: "string \<Rightarrow> string" where
  "basename p = rev (takeWhile (\<lambda>c. c \<noteq> CHR ''/'') (rev p))"

text \<open>\<open>xs[i]\<close> for an index that is not negative: \<open>None\<close> is the IndexError.\<close>

definition index :: "'a list \<Rightarrow> nat \<Rightarrow> 'a option" where
  "index xs i = (if i < length xs then Some (xs ! i) else None)"

subsection \<open>The worker, the files of a batch and what the worker emits\<close>

text \<open>
  The attributes of the worker that \<open>run\<close> reads. \<open>target_size_mb\<close> is the text of
  the input field, \<open>audio_bitrate\<close> is \<open>None\<close> or a comma-separated string,
  \<open>selected_audio_tracks\<close> has one list of track indices per file. The priority of
  the transcoder's process is not modelled.
\<close>

record worker =
  target_size_mb :: string
  audio_bitrate :: "string option"
  preset_file :: "string option"
  preset_name :: "string option"
  destination_folder :: string
  per_file_output_only :: bool
  delete_source_files :: string
  selected_encoder :: string
  selected_audio_encoder :: string
  selected_audio_tracks :: "nat list list"
  variable_bitrate :: bool
  multi_pass :: bool

text \<open>The transcoder's command line, by option.\<close>

record handbrake_cmd =
  hb_i :: string
  hb_o_folder :: string
  hb_o_name :: string
  hb_preset :: "(string \<times> string) option"
  hb_q :: "rat option"
  hb_b :: "int option"
  hb_multi_pass :: "bool option"
  hb_all_subtitles :: bool
  hb_e :: "string option"
  hb_a :: "nat list option"
  hb_B :: "string option"
  hb_E :: "string option"

text \<open>
  A file of the batch with what the external tools answer for it: the duration
  \<open>get_duration\<close> returns, the tracks of the inspector's output (\<open>None\<close> when the call
  raises), the extractor and the sample encode of the estimator, and the transcoder,
  which for a command gives its output lines and return code (\<open>None\<close> when starting
  the process raises).
\<close>

record media =
  media_path :: string
  inspected_duration :: "rat option"
  inspected_tracks :: "track list option"
  ffmpeg_tool :: "ffmpeg_cmd \<Rightarrow> int \<times> bool"
  sample_encoder :: "rat \<Rightarrow> int \<times> nat option"
  transcoder :: "handbrake_cmd \<Rightarrow> (string list \<times> int) option"

text \<open>
  The status lines, by kind, with the file name they mention; the lines that the
  helpers emit themselves are left out, except those of the bitrate calculation.
\<close>

datatype message =
  Starting_encoding
| Processing string
| Error_getting_duration string
| Error_getting_audio_bitrate string
| Invalid_audio_bitrate string
| Track_mismatch string
| No_audio_bitrate string
| Calculation calc_error
| Failed_video_bitrate string
| Failed_rf_estimate string
| Encoding_summary
| Handbrake_command handbrake_cmd
| Handbrake_error string
| Completed string
| Error_encoding string

datatype event =
  Progress message
| Emit signal
| Current_file nat nat string
| Handbrake_output string
| Clear_progress
| Delete_file_signal string string
| Finished
| Uncaught_exception

text \<open>
  How the body of the \<open>for\<close> loop ends for a file: with a \<open>continue\<close>, at its end
  (where \<open>processed_files\<close> is incremented), or with an exception that nothing catches.
\<close>

datatype file_end = Skipped | Encoded | Crashed

subsection \<open>The steps of the loop body\<close>

definition truthy :: "string option \<Rightarrow> bool" where
  "truthy x = (case x of None \<Rightarrow> False | Some s \<Rightarrow> s \<noteq> [])"

text \<open>
  A \<open>continue\<close> after \<open>update_overall_progress(self.processed_files, 0)\<close>.
\<close>

definition skip_file ::
  "nat \<Rightarrow> nat \<Rightarrow> event list \<Rightarrow> files \<Rightarrow> event list \<times> file_end \<times> files" where
  "skip_file total_files processed_files evs st =
     (case update_overall_progress total_files processed_files 0 of
        None \<Rightarrow> (evs, Crashed, st)
      | Some overall \<Rightarrow> (evs @ [Emit (Overall_progress overall)], Skipped, st))"

text \<open>
  "Determine audio bitrate": the values handed to the bitrate calculation, the message of
  the failure that skips the file, or the IndexError of \<open>selected_audio_tracks[idx - 1]\<close>.
  \<open>ip\<close> is the builtin \<open>int\<close> on strings.
\<close>

datatype audio_result = Audio_values "string list" | Audio_skip message | Audio_crash

definition configured_bitrate_values :: "worker \<Rightarrow> string list" where
  "configured_bitrate_values w =
     map strip (split_comma (case audio_bitrate w of Some ab \<Rightarrow> ab | None \<Rightarrow> []))"

definition resolve_audio_bitrate ::
  "(string \<Rightarrow> rat option) \<Rightarrow> (string \<Rightarrow> int option) \<Rightarrow> worker \<Rightarrow> nat \<Rightarrow> media \<Rightarrow> audio_result" where
  "resolve_audio_bitrate fl ip w idx m =
     (let file_name = basename (media_path m)
      in if selected_audio_encoder w = ''copy'' then
           (case get_audio_bitrate fl (inspected_tracks m) of
              None \<Rightarrow> Audio_skip (Error_getting_audio_bitrate file_name)
            | Some audio_bitrate_total \<Rightarrow> Audio_values [str_int audio_bitrate_total])
         else if truthy (audio_bitrate w) then
           (let bitrate_values = configured_bitrate_values w
            in if list_ex (\<lambda>bitrate. ip bitrate = None) bitrate_values
               then Audio_skip (Invalid_audio_bitrate file_name)
               else (case index (selected_audio_tracks w) (idx - 1) of
                       None \<Rightarrow> Audio_crash
                     | Some selected_tracks \<Rightarrow>
                         (let selected_bitrate_values =
                                map (\<lambda>i. bitrate_values ! i)
                                  (filter (\<lambda>i. i < length bitrate_values) selected_tracks)
                          in if length selected_bitrate_values \<noteq> length selected_tracks
                             then Audio_skip (Track_mismatch file_name)
                             else Audio_values selected_bitrate_values)))
         else Audio_skip (No_audio_bitrate file_name))"

datatype encode_param = Quality rat | Bitrate int

definition is_hardware_encoder :: "worker \<Rightarrow> bool" where
  "is_hardware_encoder w =
     (selected_encoder w \<in> set [''nvenc_h264'', ''nvenc_h265'', ''nvenc_h265_10bit''])"

definition handbrake_command :: "worker \<Rightarrow> string \<Rightarrow> encode_param \<Rightarrow> nat list \<Rightarrow> handbrake_cmd" where
  "handbrake_command w file_path param selected_tracks =
     \<lparr>hb_i = file_path,
      hb_o_folder = destination_folder w,
      hb_o_name = basename file_path,
      hb_preset = (if truthy (preset_file w) \<and> truthy (preset_name w)
                   then (case (preset_file w, preset_name w) of
                           (Some f, Some n) \<Rightarrow> Some (f, n)
                         | _ \<Rightarrow> None)
                   else None),
      hb_q = (case param of Quality q \<Rightarrow> Some q | Bitrate b \<Rightarrow> None),
      hb_b = (case param of Quality q \<Rightarrow> None | Bitrate b \<Rightarrow> Some b),
      hb_multi_pass = (if \<not> variable_bitrate w \<and> \<not> is_hardware_encoder w
                       then Some (multi_pass w) else None),
      hb_all_subtitles = (preset_name w = None),
      hb_e = (if selected_encoder w \<noteq> [] \<and> selected_encoder w \<noteq> ''None''
              then Some (selected_encoder w) else None),
      hb_a = (if selected_tracks \<noteq> [] then Some (map Suc selected_tracks) else None),
      hb_B = (if truthy (audio_bitrate w) \<and> selected_tracks \<noteq> []
                 \<and> selected_audio_encoder w \<noteq> ''copy'' \<and> selected_audio_encoder w \<noteq> ''None''
              then audio_bitrate w else None),
      hb_E = (if selected_audio_encoder w \<noteq> [] \<and> selected_audio_encoder w \<noteq> ''None''
              then Some (selected_audio_encoder w) else None)\<rparr>"

text \<open>
  Reading the transcoder's output: each line is shown and parsed. The flag is false when
  the parsing raised, which ends the reading.
\<close>

fun read_output :: "nat \<Rightarrow> nat \<Rightarrow> string list \<Rightarrow> event list \<times> bool" where
  "read_output processed_files total_files [] = ([], True)"
| "read_output processed_files total_files (line # lines) =
     (case parse_handbrake_output processed_files total_files (strip line) of
        None \<Rightarrow> ([Handbrake_output (strip line)], False)
      | Some signals \<Rightarrow>
          (Handbrake_output (strip line) # map Emit signals
             @ fst (read_output processed_files total_files lines),
           snd (read_output processed_files total_files lines)))"

text \<open>The \<open>try\<close> block that runs the transcoder, with its \<open>except\<close>.\<close>

definition transcode :: "worker \<Rightarrow> nat \<Rightarrow> nat \<Rightarrow> media \<Rightarrow> handbrake_cmd \<Rightarrow> event list" where
  "transcode w processed_files total_files m command =
     (let file_name = basename (media_path m)
      in case transcoder m command of
           None \<Rightarrow> [Progress (Error_encoding file_name)]
         | Some (lines, returncode) \<Rightarrow>
             (let evs = fst (read_output processed_files total_files lines);
                  ok = snd (read_output processed_files total_files lines)
              in if \<not> ok then evs @ [Progress (Error_encoding file_name)]
                 else if returncode \<noteq> 0
                 then evs @ [Progress (Handbrake_error file_name), Emit (Current_file_progress 0)]
                 else evs @ [Emit (Current_file_progress 100), Progress (Completed file_name),
                             Delete_file_signal (media_path m) (delete_source_files w)]))"

text \<open>
  From "Prepare HandBrakeCLI command" to the end of the loop body, for the parameter
  the file is encoded with.
\<close>

definition encode_file ::
  "worker \<Rightarrow> nat \<Rightarrow> nat \<Rightarrow> nat \<Rightarrow> media \<Rightarrow> encode_param \<Rightarrow> event list \<Rightarrow> files
     \<Rightarrow> event list \<times> file_end \<times> files" where
  "encode_file w total_files idx processed_files m param evs st =
     (case index (selected_audio_tracks w) (idx - 1) of
        None \<Rightarrow> (evs @ [Progress Encoding_summary], Crashed, st)
      | Some selected_tracks \<Rightarrow>
          (let command = handbrake_command w (media_path m) param selected_tracks;
               evs1 = evs @ [Progress Encoding_summary, Progress (Handbrake_command command)]
                        @ transcode w processed_files total_files m command
           in case update_overall_progress total_files (processed_files + 1) 0 of
                None \<Rightarrow> (evs1, Crashed, st)
              | Some overall \<Rightarrow> (evs1 @ [Emit (Overall_progress overall)], Encoded, st)))"

text \<open>
  The body of the \<open>for\<close> loop for the file number \<open>idx\<close> (from 1), with
  \<open>processed_files\<close> files counted so far.
\<close>

definition process_file ::
  "(string \<Rightarrow> rat option) \<Rightarrow> (string \<Rightarrow> int option) \<Rightarrow> worker \<Rightarrow> nat \<Rightarrow> nat \<Rightarrow> nat \<Rightarrow> media
     \<Rightarrow> files \<Rightarrow> event list \<times> file_end \<times> files" where
  "process_file fl ip w total_files idx processed_files m st =
     (let file_name = basename (media_path m);
          evs = (if per_file_output_only w then [Clear_progress, Progress Starting_encoding] else [])
                  @ [Current_file idx total_files file_name, Progress (Processing file_name),
                     Emit (Current_file_progress 0)]
      in case inspected_duration m of
           None \<Rightarrow>
             skip_file total_files processed_files
               (evs @ [Progress (Error_getting_duration file_name)]) st
         | Some duration \<Rightarrow>
             (case resolve_audio_bitrate fl ip w idx m of
                Audio_crash \<Rightarrow> (evs, Crashed, st)
              | Audio_skip msg \<Rightarrow> skip_file total_files processed_files (evs @ [Progress msg]) st
              | Audio_values selected_bitrate_values \<Rightarrow>
                  (case calculate_video_bitrate fl (target_size_mb w) (Some duration)
                          (target_size_mb w) selected_bitrate_values of
                     Inl e \<Rightarrow>
                       skip_file total_files processed_files
                         (evs @ [Progress (Calculation e), Progress (Failed_video_bitrate file_name)])
                         st
                   | Inr video_bitrate \<Rightarrow>
                       if variable_bitrate w then
                         (case fl (target_size_mb w) of
                            None \<Rightarrow> (evs, Crashed, st)
                          | Some target \<Rightarrow>
                              (case estimate_rf_value fl (ffmpeg_tool m) (sample_encoder m)
                                      (destination_folder w) (inspected_duration m) (media_path m)
                                      target selected_bitrate_values st of
                                 (None, st') \<Rightarrow>
                                   skip_file total_files processed_files
                                     (evs @ [Progress (Failed_rf_estimate file_name)]) st'
                               | (Some estimated_rf_value, st') \<Rightarrow>
                                   encode_file w total_files idx processed_files m
                                     (Quality estimated_rf_value) evs st'))
                       else encode_file w total_files idx processed_files m
                              (Bitrate video_bitrate) evs st)))"

subsection \<open>The loop\<close>

fun run_loop ::
  "(string \<Rightarrow> rat option) \<Rightarrow> (string \<Rightarrow> int option) \<Rightarrow> worker \<Rightarrow> nat \<Rightarrow> nat \<Rightarrow> nat \<Rightarrow> files
     \<Rightarrow> media list \<Rightarrow> event list" where
  "run_loop fl ip w total_files idx processed_files st [] =
     [Emit (Overall_progress 100), Finished]"
| "run_loop fl ip w total_files idx processed_files st (m # ms) =
     (case process_file fl ip w total_files idx processed_files m st of
        (evs, Crashed, st') \<Rightarrow> evs @ [Uncaught_exception]
      | (evs, Skipped, st') \<Rightarrow> evs @ run_loop fl ip w total_files (Suc idx) processed_files st' ms
      | (evs, Encoded, st') \<Rightarrow>
          evs @ run_loop fl ip w total_files (Suc idx) (Suc processed_files) st' ms)"

definition run ::
  "(string \<Rightarrow> rat option) \<Rightarrow> (string \<Rightarrow> int option) \<Rightarrow> worker \<Rightarrow> media list \<Rightarrow> files \<Rightarrow> event list" where
  "run fl ip w media_files st =
     Progress Starting_encoding # run_loop fl ip w (length media_files) 1 0 st media_files"

subsection \<open>A batch for the examples\<close>

text \<open>
  A worker that encodes to 700 MB at a fixed bitrate with two audio bitrates, a
  transcoder that reports one progress line and exits with the given return code, and
  files of one hour.
\<close>

definition example_worker :: worker where
  "example_worker =
     \<lparr>target_size_mb = ''700'', audio_bitrate = Some ''128, 96'', preset_file = None,
      preset_name = None, destination_folder = ''/out'', per_file_output_only = False,
      delete_source_files = ''Never'', selected_encoder = ''x264'',
      selected_audio_encoder = ''av_aac'', selected_audio_tracks = [[0, 1], [0, 1, 2], [0]],
      variable_bitrate = False, multi_pass = False\<rparr>"

definition transcoder_exits :: "int \<Rightarrow> handbrake_cmd \<Rightarrow> (string list \<times> int) option" where
  "transcoder_exits returncode command = Some ([''Encoding: task 1 of 1, 50.00 %''], returncode)"

definition example_media :: "string \<Rightarrow> int \<Rightarrow> media" where
  "example_media file_path returncode =
     \<lparr>media_path = file_path, inspected_duration = Some 3600, inspected_tracks = None,
      ffmpeg_tool = ffmpeg_ok, sample_encoder = encode_fails,
      transcoder = transcoder_exits returncode\<rparr>"

definition example_float :: "string \<Rightarrow> rat option" where
  "example_float = map_of [(''700'', 700), (''128'', 128), (''96'', 96), (''2000'', 2000), (''1'', 1),
                           (''320'', 320), (''-5'', - 5), (''128000'', 128000),
                           (''192500'', 192500)]"


definition example_int :: "string \<Rightarrow> int option" where
  "example_int = map_of [(''128'', 128), (''96'', 96), (''2000'', 2000)]"

text \<open>What the loop body emits for a file before it looks at it.\<close>

definition first_events :: "worker \<Rightarrow> nat \<Rightarrow> nat \<Rightarrow> media \<Rightarrow> event list" where
  "first_events w total_files idx m =
     (if per_file_output_only w then [Clear_progress, Progress Starting_encoding] else [])
       @ [Current_file idx total_files (basename (media_path m)),
          Progress (Processing (basename (media_path m))), Emit (Current_file_progress 0)]"





section \<open>Properties of calculate_video_bitrate\<close>






section \<open>Properties of the rounding and of the bisection loop\<close>

lemma py_round2_lower: "of_int a \<le> x \<Longrightarrow> of_int a \<le> py_round2 x"
proof -
  assume a: "of_int a \<le> x"
  then have "of_int (a * 100) \<le> x * 100" by simp
  then have f: "a * 100 \<le> \<lfloor>x * 100\<rfloor>" by (simp only: le_floor_iff)
  then have "(of_int a :: rat) * 100 \<le> of_int \<lfloor>x * 100\<rfloor>"
    by (metis of_int_le_iff of_int_mult of_int_numeral)
  then have 1: "(of_int a :: rat) \<le> of_int \<lfloor>x * 100\<rfloor> / 100" by simp
  have 2: "(of_int \<lfloor>x * 100\<rfloor> :: rat) / 100 \<le> of_int (\<lfloor>x * 100\<rfloor> + 1) / 100" by simp
  show ?thesis using 1 2 by (auto simp: py_round2_def Let_def)
qed

lemma py_round2_upper: "x \<le> of_int b \<Longrightarrow> py_round2 x \<le> of_int b"
proof -
  assume b: "x \<le> of_int b"
  then have xb: "x * 100 \<le> of_int (b * 100)" by simp
  then have f: "\<lfloor>x * 100\<rfloor> \<le> b * 100" by (metis floor_mono floor_of_int)
  then have "(of_int \<lfloor>x * 100\<rfloor> :: rat) \<le> of_int b * 100"
    by (metis of_int_le_iff of_int_mult of_int_numeral)
  then have 1: "(of_int \<lfloor>x * 100\<rfloor> :: rat) / 100 \<le> of_int b" by simp
  show ?thesis
  proof (cases "\<lfloor>x * 100\<rfloor> = b * 100")
    case True
    then have "x * 100 - of_int \<lfloor>x * 100\<rfloor> \<le> 0" using xb by simp
    then show ?thesis using 1 by (auto simp: py_round2_def Let_def)
  next
    case False
    then have "\<lfloor>x * 100\<rfloor> + 1 \<le> b * 100" using f by simp
    then have "(of_int (\<lfloor>x * 100\<rfloor> + 1) :: rat) \<le> of_int b * 100"
      by (metis of_int_le_iff of_int_mult of_int_numeral)
    then have 2: "(of_int (\<lfloor>x * 100\<rfloor> + 1) :: rat) / 100 \<le> of_int b" by simp
    show ?thesis using 1 2 by (auto simp: py_round2_def Let_def)
  qed
qed



lemma loop_body_Continue:
  assumes "loop_body fl enc d sd t abv s st = Continue s' st'"
  shows "iteration s' = iteration s + 1"
    and "lower_rf s' = rf_value s \<and> upper_rf s' = upper_rf s
         \<or> lower_rf s' = lower_rf s \<and> upper_rf s' = rf_value s"
    and "rf_value s' = (lower_rf s' + upper_rf s') / 2"
    and "temp_sample_file st' = temp_sample_file st"
    and "temp_encoded_sample st' = None"
    and "calls st' = calls st @ [Run_sample_encode (rf_value s)]"
    and "fst (enc (rf_value s)) = 0"
    and "sd \<noteq> 0" and "float_all fl abv \<noteq> None"
  using assms
  by (auto simp: loop_body_def run_sample_encode_def Let_def split: if_splits option.splits)

lemma loop_body_Break:
  assumes "loop_body fl enc d sd t abv s st = Break s' st'"
  shows "s' = s\<lparr>iteration := iteration s + 1\<rparr>"
    and "temp_sample_file st' = temp_sample_file st"
    and "calls st' = calls st @ [Run_sample_encode (rf_value s)]"
    and "fst (enc (rf_value s)) = 0"
    and "sd \<noteq> 0" and "float_all fl abv \<noteq> None"
  using assms
  by (auto simp: loop_body_def run_sample_encode_def Let_def split: if_splits option.splits)

lemma loop_body_Return_None:
  assumes "loop_body fl enc d sd t abv s st = Return_None st'"
  shows "temp_sample_file st' = temp_sample_file st"
    and "calls st' = calls st @ [Run_sample_encode (rf_value s)]"
  using assms
  by (auto simp: loop_body_def run_sample_encode_def Let_def split: if_splits option.splits)

lemma search_inv_Continue:
  assumes "loop_body fl enc d sd t abv s st = Continue s' st'" and "search_inv s"
  shows "search_inv s'"
  using loop_body_Continue(2,3) [OF assms(1)] assms(2)
  by (auto simp: search_inv_def)

lemma search_inv_loop:
  "bisection_loop fl enc d sd t abv s st = (Some s', st') \<Longrightarrow> search_inv s \<Longrightarrow> search_inv s'"
proof (induction fl enc d sd t abv s st rule: bisection_loop.induct)
  case (1 fl enc d sd t abv s st)
  show ?case
  proof (cases "iteration s < max_iterations")
    case False
    with "1.prems" show ?thesis by (simp add: bisection_loop.simps)
  next
    case True
    show ?thesis
    proof (cases "loop_body fl enc d sd t abv s st")
      case (Return_None x)
      with True "1.prems" show ?thesis by (simp add: bisection_loop.simps)
    next
      case (Break s1 st1)
      with True "1.prems" have "s' = s1" by (simp add: bisection_loop.simps)
      with loop_body_Break(1) [OF Break] "1.prems"(2) show ?thesis
        by (simp add: search_inv_def)
    next
      case (Continue s1 st1)
      with True "1.prems" have "bisection_loop fl enc d sd t abv s1 st1 = (Some s', st')"
        by (simp add: bisection_loop.simps)
      with "1.IH" [OF True Continue] search_inv_Continue [OF Continue "1.prems"(2)]
      show ?thesis by simp
    qed
  qed
qed

lemma temp_sample_file_loop:
  "temp_sample_file (snd (bisection_loop fl enc d sd t abv s st)) = temp_sample_file st"
proof (induction fl enc d sd t abv s st rule: bisection_loop.induct)
  case (1 fl enc d sd t abv s st)
  show ?case
  proof (cases "iteration s < max_iterations")
    case False
    then show ?thesis by (simp add: bisection_loop.simps)
  next
    case True
    show ?thesis
    proof (cases "loop_body fl enc d sd t abv s st")
      case (Return_None x)
      with True loop_body_Return_None(1) [OF Return_None] show ?thesis
        by (simp add: bisection_loop.simps)
    next
      case (Break s1 st1)
      with True loop_body_Break(2) [OF Break] show ?thesis
        by (simp add: bisection_loop.simps)
    next
      case (Continue s1 st1)
      with True "1.IH" [OF True Continue] loop_body_Continue(4) [OF Continue] show ?thesis
        by (simp add: bisection_loop.simps)
    qed
  qed
qed


lemma loop_body_Return_None_cause:
  assumes "loop_body fl enc d sd t abv s st = Return_None st'" and "temp_encoded_sample st = None"
  shows "fst (enc (rf_value s)) \<noteq> 0 \<or> snd (enc (rf_value s)) = None \<or> sd = 0
         \<or> float_all fl abv = None"
  using assms
  by (auto simp: loop_body_def run_sample_encode_def Let_def split: if_splits option.splits)

lemma loop_body_written:
  assumes "loop_body fl enc d sd t abv s st = Break s' st'
           \<or> loop_body fl enc d sd t abv s st = Continue s' st'"
    and "temp_encoded_sample st = None"
  shows "snd (enc (rf_value s)) \<noteq> None"
  using assms
  by (auto simp: loop_body_def run_sample_encode_def Let_def split: if_splits option.splits)

lemma loop_fails_iff:
  "temp_encoded_sample st = None \<Longrightarrow>
   \<exists>new. calls (snd (bisection_loop fl enc d sd t abv s st)) = calls st @ map Run_sample_encode new
     \<and> (fst (bisection_loop fl enc d sd t abv s st) = None \<longleftrightarrow>
          iteration s < max_iterations \<and> (sd = 0 \<or> float_all fl abv = None)
          \<or> (\<exists>q\<in>set new. fst (enc q) \<noteq> 0 \<or> snd (enc q) = None))"
proof (induction fl enc d sd t abv s st rule: bisection_loop.induct)
  case (1 fl enc d sd t abv s st)
  show ?case
  proof (cases "iteration s < max_iterations")
    case False
    then have "bisection_loop fl enc d sd t abv s st = (Some s, st)"
      by (simp add: bisection_loop.simps)
    with False show ?thesis by simp
  next
    case True
    show ?thesis
    proof (cases "loop_body fl enc d sd t abv s st")
      case (Return_None st1)
      with True have L: "bisection_loop fl enc d sd t abv s st = (None, st1)"
        by (simp add: bisection_loop.simps)
      have c: "calls st1 = calls st @ map Run_sample_encode [rf_value s]"
        using loop_body_Return_None(2) [OF Return_None] by simp
      from loop_body_Return_None_cause [OF Return_None "1.prems"] True L c
      show ?thesis
        by (intro exI [of _ "[rf_value s]"]) auto
    next
      case (Break s1 st1)
      with True have L: "bisection_loop fl enc d sd t abv s st = (Some s1, st1)"
        by (simp add: bisection_loop.simps)
      have c: "calls st1 = calls st @ map Run_sample_encode [rf_value s]"
        using loop_body_Break(3) [OF Break] by simp
      have w: "snd (enc (rf_value s)) \<noteq> None"
        using loop_body_written [OF _ "1.prems"] Break by blast
      from loop_body_Break(4,5,6) [OF Break] w L c
      show ?thesis
        by (intro exI [of _ "[rf_value s]"]) auto
    next
      case (Continue s1 st1)
      with True have L: "bisection_loop fl enc d sd t abv s st = bisection_loop fl enc d sd t abv s1 st1"
        by (simp add: bisection_loop.simps)
      have c: "calls st1 = calls st @ [Run_sample_encode (rf_value s)]"
        using loop_body_Continue(6) [OF Continue] .
      have w: "snd (enc (rf_value s)) \<noteq> None"
        using loop_body_written [OF _ "1.prems"] Continue by blast
      from "1.IH" [OF True Continue loop_body_Continue(5) [OF Continue]]
      obtain new where both: "calls (snd (bisection_loop fl enc d sd t abv s1 st1))
                               = calls st1 @ map Run_sample_encode new
          \<and> (fst (bisection_loop fl enc d sd t abv s1 st1) = None \<longleftrightarrow>
                iteration s1 < max_iterations \<and> (sd = 0 \<or> float_all fl abv = None)
                \<or> (\<exists>q\<in>set new. fst (enc q) \<noteq> 0 \<or> snd (enc q) = None))" ..
      note new = both [THEN conjunct1] and iff = both [THEN conjunct2]
      from new c have c': "calls (snd (bisection_loop fl enc d sd t abv s st))
                            = calls st @ map Run_sample_encode (rf_value s # new)"
        by (simp add: L)
      from iff loop_body_Continue(7,8,9) [OF Continue] w
      have i': "fst (bisection_loop fl enc d sd t abv s st) = None \<longleftrightarrow>
              iteration s < max_iterations \<and> (sd = 0 \<or> float_all fl abv = None)
              \<or> (\<exists>q\<in>set (rf_value s # new). fst (enc q) \<noteq> 0 \<or> snd (enc q) = None)"
        by (auto simp: L)
      show ?thesis
        by (rule exI [of _ "rf_value s # new"], rule conjI [OF c' i'])
    qed
  qed
qed

lemma sample_encodes_append: "sample_encodes (xs @ ys) = sample_encodes xs @ sample_encodes ys"
  by (induction xs rule: sample_encodes.induct) simp_all




section \<open>Properties of estimate_rf_value\<close>

lemma extract_sample_facts:
  "temp_encoded_sample (snd (extract_sample ffmpeg dest path d st)) = None"
  "temp_sample_file (snd (extract_sample ffmpeg dest path d st)) = snd (ffmpeg (sample_cmd dest path d))"
  "calls (snd (extract_sample ffmpeg dest path d st)) = calls st @ [Run_ffmpeg (sample_cmd dest path d)]"
  "fst (extract_sample ffmpeg dest path d st) = fst (ffmpeg (sample_cmd dest path d))"
  by (simp_all add: extract_sample_def run_ffmpeg_def Let_def)

lemma estimate_rf_value_eq:
  "estimate_rf_value fl ffmpeg enc dest (Some d) path target abv st =
     (if fst (ffmpeg (sample_cmd dest path d)) \<noteq> 0
      then (None, snd (extract_sample ffmpeg dest path d st))
      else (case fst (bisection_loop fl enc d (sample_duration_of d) target abv initial_search
                        (snd (extract_sample ffmpeg dest path d st))) of
              None \<Rightarrow> (None, snd (bisection_loop fl enc d (sample_duration_of d) target abv
                                initial_search (snd (extract_sample ffmpeg dest path d st))))
            | Some s \<Rightarrow> clean_up_and_return s
                         (snd (bisection_loop fl enc d (sample_duration_of d) target abv
                                initial_search (snd (extract_sample ffmpeg dest path d st))))))"
  by (simp add: estimate_rf_value_def Let_def extract_sample_facts(4) split: prod.splits option.splits)

lemma search_inv_initial: "search_inv initial_search"
  by (simp add: search_inv_def initial_search_def)

lemma estimate_rf_value_Some:
  assumes "fst (estimate_rf_value fl ffmpeg enc dest duration path target abv st) = Some v"
  shows "\<exists>s. search_inv s \<and> v = py_round2 (rf_value s)"
proof -
  from assms obtain d where d: "duration = Some d"
    by (cases duration) (simp_all add: estimate_rf_value_def)
  let ?st2 = "snd (extract_sample ffmpeg dest path d st)"
  let ?L = "bisection_loop fl enc d (sample_duration_of d) target abv initial_search ?st2"
  from assms d have rc: "fst (ffmpeg (sample_cmd dest path d)) = 0"
    by (auto simp: estimate_rf_value_eq split: if_splits)
  from assms d rc obtain s where s: "fst ?L = Some s"
    and c: "fst (clean_up_and_return s (snd ?L)) = Some v"
    by (auto simp: estimate_rf_value_eq split: option.splits)
  from s have "?L = (Some s, snd ?L)" by (metis prod.collapse)
  from search_inv_loop [OF this search_inv_initial] have "search_inv s" .
  moreover from c have "v = py_round2 (rf_value s)"
    by (auto simp: clean_up_and_return_def split: if_splits)
  ultimately show ?thesis by blast
qed

lemma pass_inv:
  "pass fl enc d sd t abv k s st = Some (s', st') \<Longrightarrow> search_inv s \<Longrightarrow>
   search_inv s' \<and> upper_rf s' - lower_rf s' = (upper_rf s - lower_rf s) / 2 ^ k
   \<and> iteration s' = iteration s + k"
proof (induction k arbitrary: s st)
  case 0
  then show ?case by simp
next
  case (Suc k)
  from Suc.prems(1) obtain s1 st1 where body: "loop_body fl enc d sd t abv s st = Continue s1 st1"
    and rest: "pass fl enc d sd t abv k s1 st1 = Some (s', st')"
    by (auto split: body_result.splits if_splits)
  have inv1: "search_inv s1" by (rule search_inv_Continue [OF body Suc.prems(2)])
  have w: "upper_rf s1 - lower_rf s1 = (upper_rf s - lower_rf s) / 2"
    using loop_body_Continue(2) [OF body] Suc.prems(2) by (auto simp: search_inv_def field_simps)
  from Suc.IH [OF rest inv1] w loop_body_Continue(1) [OF body] show ?case
    by (simp add: field_simps)
qed

lemmas estimator_defs =
  estimate_rf_value_def extract_sample_def run_ffmpeg_def run_sample_encode_def
  bisection_loop.simps loop_body_def initial_search_def max_iterations_def
  sample_cmd_def sample_duration_of_def sample_start_of_def sample_percentage_def
  estimated_total_size_mb_def acceptable_lower_size_def acceptable_upper_size_def
  clean_up_and_return_def py_round2_def Let_def
  ffmpeg_ok_def ffmpeg_fails_def encode_fails_def encode_size_def encode_by_quality_def
  no_files_def

lemma floor_rat_numeral [simp]: "\<lfloor>numeral a / numeral b :: rat\<rfloor> = numeral a div numeral b"
  by (metis floor_divide_of_int_eq of_int_numeral)

lemma floor_minus_rat_numeral [simp]:
  "\<lfloor>- (numeral a / numeral b) :: rat\<rfloor> = - numeral a div numeral b"
  by (metis divide_minus_left floor_divide_of_int_eq of_int_neg_numeral of_int_numeral)

section \<open>The claims about estimate_rf_value\<close>

text \<open>
  Claim C3. Whenever the estimator returns a value, the value lies in [18, 40]. The
  search starts with the bounds 18 and 40 and their midpoint as candidate. A pass of
  the loop that goes on to the next one replaces exactly one bound with the candidate and
  takes the midpoint of the new bounds as the next candidate, so the interval is half as
  wide: it is \<open>(40 - 18) / 2 ^ k\<close> wide after \<open>k\<close> passes.
\<close>

theorem estimate_rf_value_within_bounds:
  assumes ret: "fst (estimate_rf_value fl ffmpeg enc dest duration path target abv st) = Some v"
    and reach: "pass fl' enc' d sd t abv' k initial_search st0 = Some (s, st1)"
    and body: "loop_body fl' enc' d sd t abv' s st1 = Continue s' st'"
  shows "18 \<le> v \<and> v \<le> 40
         \<and> lower_rf initial_search = 18 \<and> upper_rf initial_search = 40
         \<and> rf_value initial_search = (lower_rf initial_search + upper_rf initial_search) / 2
         \<and> (lower_rf s' = rf_value s \<and> upper_rf s' = upper_rf s
            \<or> lower_rf s' = lower_rf s \<and> upper_rf s' = rf_value s)
         \<and> rf_value s' = (lower_rf s' + upper_rf s') / 2
         \<and> upper_rf s - lower_rf s = (40 - 18) / 2 ^ k
         \<and> upper_rf s' - lower_rf s' = (upper_rf s - lower_rf s) / 2"
proof -
  from estimate_rf_value_Some [OF ret] obtain sf where sf: "search_inv sf"
    and v: "v = py_round2 (rf_value sf)" by blast
  from sf have lo: "of_int 18 \<le> rf_value sf" and hi: "rf_value sf \<le> of_int 40"
    by (auto simp: search_inv_def)
  from py_round2_lower [OF lo] py_round2_upper [OF hi] v
  have bounds: "18 \<le> v \<and> v \<le> 40" by simp
  have init: "lower_rf initial_search = 18 \<and> upper_rf initial_search = 40
         \<and> rf_value initial_search = (lower_rf initial_search + upper_rf initial_search) / 2"
    by (simp add: initial_search_def)
  from pass_inv [OF reach search_inv_initial] have inv: "search_inv s"
    and width: "upper_rf s - lower_rf s = (40 - 18) / 2 ^ k"
    by (simp_all add: initial_search_def)
  have half: "upper_rf s' - lower_rf s' = (upper_rf s - lower_rf s) / 2"
    using loop_body_Continue(2) [OF body] inv by (auto simp: search_inv_def field_simps)
  from bounds init loop_body_Continue(2,3) [OF body] width half show ?thesis
    by blast
qed

theorem estimate_rf_value_within_bounds_witness:
  "fst (estimate_rf_value (map_of [(''128'', 128)]) ffmpeg_ok encode_by_quality ''out''
         (Some 100) ''in.mkv'' 20 [''128''] no_files) = Some (2762 / 100)
   \<and> pass (map_of [(''128'', 128)]) encode_by_quality 100 5 20 [''128''] 0 initial_search no_files
       = Some (initial_search, no_files)
   \<and> loop_body (map_of [(''128'', 128)]) encode_by_quality 100 5 20 [''128''] initial_search no_files
       = Continue \<lparr>lower_rf = 18, upper_rf = 29, rf_value = 47 / 2, iteration = 1\<rparr>
           \<lparr>temp_sample_file = False, temp_encoded_sample = None, calls = [Run_sample_encode 29]\<rparr>
   \<and> (18::rat) \<le> 2762 / 100 \<and> (2762 / 100 :: rat) \<le> 40
   \<and> upper_rf initial_search - lower_rf initial_search = (40 - 18) / 2 ^ (0::nat)
   \<and> (29 :: rat) - 18 = (upper_rf initial_search - lower_rf initial_search) / 2"
proof -
  have h1: "fst (estimate_rf_value (map_of [(''128'', 128)]) ffmpeg_ok encode_by_quality ''out''
              (Some 100) ''in.mkv'' 20 [''128''] no_files) = Some (2762 / 100)"
    by (simp add: estimator_defs)
  have h2: "pass (map_of [(''128'', 128)]) encode_by_quality 100 5 20 [''128''] 0 initial_search
              no_files = Some (initial_search, no_files)"
    by simp
  have h3: "loop_body (map_of [(''128'', 128)]) encode_by_quality 100 5 20 [''128''] initial_search
              no_files
            = Continue \<lparr>lower_rf = 18, upper_rf = 29, rf_value = 47 / 2, iteration = 1\<rparr>
                \<lparr>temp_sample_file = False, temp_encoded_sample = None,
                   calls = [Run_sample_encode 29]\<rparr>"
    by (simp add: estimator_defs)
  from estimate_rf_value_within_bounds [OF h1 h2 h3] h1 h2 h3 show ?thesis
    by simp
qed



lemma loop_calls:
  assumes "temp_encoded_sample st = None"
  obtains new where
    "calls (snd (bisection_loop fl enc d sd t abv s st)) = calls st @ map Run_sample_encode new"
    and "fst (bisection_loop fl enc d sd t abv s st) = None \<longleftrightarrow>
           iteration s < max_iterations \<and> (sd = 0 \<or> float_all fl abv = None)
           \<or> (\<exists>q\<in>set new. fst (enc q) \<noteq> 0 \<or> snd (enc q) = None)"
proof -
  from loop_fails_iff [OF assms, of fl enc d sd t abv s]
  obtain new where both:
    "calls (snd (bisection_loop fl enc d sd t abv s st)) = calls st @ map Run_sample_encode new
     \<and> (fst (bisection_loop fl enc d sd t abv s st) = None \<longleftrightarrow>
          iteration s < max_iterations \<and> (sd = 0 \<or> float_all fl abv = None)
          \<or> (\<exists>q\<in>set new. fst (enc q) \<noteq> 0 \<or> snd (enc q) = None))" ..
  from that [OF both [THEN conjunct1] both [THEN conjunct2]] show thesis .
qed

lemma clean_up_and_return_calls: "calls (snd (clean_up_and_return s st)) = calls st"
  by (simp add: clean_up_and_return_def)

lemma sample_duration_of_zero: "sample_duration_of d = 0 \<longleftrightarrow> d = 0"
  by (simp add: sample_duration_of_def sample_percentage_def)

lemma estimate_rf_value_calls:
  obtains new where
    "calls (snd (estimate_rf_value fl ffmpeg enc dest (Some d) path target abv st))
       = calls st @ Run_ffmpeg (sample_cmd dest path d) # map Run_sample_encode new"
    and "fst (estimate_rf_value fl ffmpeg enc dest (Some d) path target abv st) = None \<longleftrightarrow>
           fst (ffmpeg (sample_cmd dest path d)) \<noteq> 0 \<or> \<not> snd (ffmpeg (sample_cmd dest path d))
           \<or> d = 0 \<or> float_all fl abv = None
           \<or> (\<exists>q\<in>set new. fst (enc q) \<noteq> 0 \<or> snd (enc q) = None)"
proof (cases "fst (ffmpeg (sample_cmd dest path d)) = 0")
  case False
  then have "calls (snd (estimate_rf_value fl ffmpeg enc dest (Some d) path target abv st))
               = calls st @ Run_ffmpeg (sample_cmd dest path d) # map Run_sample_encode []"
    and "fst (estimate_rf_value fl ffmpeg enc dest (Some d) path target abv st) = None"
    by (simp_all add: estimate_rf_value_eq extract_sample_facts)
  with False that [of "[]"] show thesis by simp
next
  case True
  let ?st2 = "snd (extract_sample ffmpeg dest path d st)"
  let ?L = "bisection_loop fl enc d (sample_duration_of d) target abv initial_search ?st2"
  obtain new where c: "calls (snd ?L) = calls ?st2 @ map Run_sample_encode new"
    and i: "fst ?L = None \<longleftrightarrow>
              iteration initial_search < max_iterations
                \<and> (sample_duration_of d = 0 \<or> float_all fl abv = None)
              \<or> (\<exists>q\<in>set new. fst (enc q) \<noteq> 0 \<or> snd (enc q) = None)"
    using loop_calls [OF extract_sample_facts(1)] by blast
  have it: "iteration initial_search < max_iterations"
    by (simp add: initial_search_def max_iterations_def)
  have ts: "temp_sample_file (snd ?L) = snd (ffmpeg (sample_cmd dest path d))"
    by (simp add: temp_sample_file_loop extract_sample_facts(2))
  have c': "calls (snd (estimate_rf_value fl ffmpeg enc dest (Some d) path target abv st))
              = calls st @ Run_ffmpeg (sample_cmd dest path d) # map Run_sample_encode new"
    using True c
    by (simp add: estimate_rf_value_eq extract_sample_facts(3) clean_up_and_return_calls
        split: option.splits)
  have i': "fst (estimate_rf_value fl ffmpeg enc dest (Some d) path target abv st) = None \<longleftrightarrow>
              fst (ffmpeg (sample_cmd dest path d)) \<noteq> 0 \<or> \<not> snd (ffmpeg (sample_cmd dest path d))
              \<or> d = 0 \<or> float_all fl abv = None
              \<or> (\<exists>q\<in>set new. fst (enc q) \<noteq> 0 \<or> snd (enc q) = None)"
  proof (cases "fst ?L")
    case None
    with True i it show ?thesis
      by (auto simp: estimate_rf_value_eq sample_duration_of_zero)
  next
    case (Some s)
    with i it have good: "d \<noteq> 0" "float_all fl abv \<noteq> None"
      "\<not> (\<exists>q\<in>set new. fst (enc q) \<noteq> 0 \<or> snd (enc q) = None)"
      by (auto simp: sample_duration_of_zero)
    from Some True ts have "fst (estimate_rf_value fl ffmpeg enc dest (Some d) path target abv st) = None
        \<longleftrightarrow> \<not> snd (ffmpeg (sample_cmd dest path d))"
      by (simp add: estimate_rf_value_eq clean_up_and_return_def)
    with good True show ?thesis by blast
  qed
  from that [OF c' i'] show thesis .
qed

lemma calls_made_append: "calls st' = calls st @ cs \<Longrightarrow> calls_made st st' = cs"
  by (simp add: calls_made_def)


lemma estimate_rf_value_removes_files:
  assumes "fst (estimate_rf_value fl ffmpeg enc dest duration path target abv st) = Some v"
  shows "\<not> temp_sample_file (snd (estimate_rf_value fl ffmpeg enc dest duration path target abv st))
         \<and> temp_encoded_sample (snd (estimate_rf_value fl ffmpeg enc dest duration path target abv st))
             = None"
proof -
  from assms obtain d where d: "duration = Some d"
    by (cases duration) (simp_all add: estimate_rf_value_def)
  with assms show ?thesis
    by (auto simp: estimate_rf_value_eq clean_up_and_return_def split: if_splits option.splits)
qed




text \<open>
  Claim C6. For a file whose duration \<open>d\<close> is known, the first command the estimator
  runs is the extractor with a segment of 5% of \<open>d\<close> that starts at
  \<open>(d - sample_duration) / 2\<close>, so that its middle is the middle of the file, with
  the streams copied, into \<open>temp_sample.mkv\<close> in the destination folder.
\<close>

theorem estimate_rf_value_sample_segment:
  "take 1 (calls_made st (snd (estimate_rf_value fl ffmpeg enc dest (Some d) path target abv st)))
     = [Run_ffmpeg (sample_cmd dest path d)]
   \<and> opt_t (sample_cmd dest path d) = d * (5 / 100)
   \<and> opt_ss (sample_cmd dest path d) = (d - opt_t (sample_cmd dest path d)) / 2
   \<and> opt_ss (sample_cmd dest path d) + opt_t (sample_cmd dest path d) / 2 = d / 2
   \<and> opt_c (sample_cmd dest path d) = ''copy''
   \<and> opt_i (sample_cmd dest path d) = path
   \<and> out_folder (sample_cmd dest path d) = dest
   \<and> out_name (sample_cmd dest path d) = ''temp_sample.mkv''"
proof -
  obtain new where c: "calls (snd (estimate_rf_value fl ffmpeg enc dest (Some d) path target abv st))
         = calls st @ Run_ffmpeg (sample_cmd dest path d) # map Run_sample_encode new"
    by (rule estimate_rf_value_calls)
  have 1: "take 1 (calls_made st (snd (estimate_rf_value fl ffmpeg enc dest (Some d) path target abv st)))
     = [Run_ffmpeg (sample_cmd dest path d)]"
    by (simp add: calls_made_append [OF c])
  have 2: "opt_ss (sample_cmd dest path d) + opt_t (sample_cmd dest path d) / 2 = d / 2"
    by (simp add: sample_cmd_def sample_start_of_def sample_duration_of_def sample_percentage_def)
  from 1 2 show ?thesis
    by (simp add: sample_cmd_def sample_start_of_def sample_duration_of_def sample_percentage_def)
qed

text \<open>
  Claim C7 at an input where the extraction succeeds and the first sample encode exits
  non-zero: the estimator returns \<open>None\<close> and the extracted sample is still there.
\<close>

theorem estimate_rf_value_leaves_sample:
  "estimate_rf_value (map_of [(''128'', 128)]) ffmpeg_ok encode_fails ''out'' (Some 100) ''in.mkv''
     20 [''128''] no_files
   = (None, \<lparr>temp_sample_file = True, temp_encoded_sample = None,
             calls = [Run_ffmpeg (sample_cmd ''out'' ''in.mkv'' 100), Run_sample_encode 29]\<rparr>)"
  by (simp add: estimator_defs)

section \<open>Properties of the percent tokens\<close>




















section \<open>The claim about parse_handbrake_output\<close>




section \<open>Properties of run\<close>

lemma update_overall_progress_Some:
  "0 < total_files \<Longrightarrow> update_overall_progress total_files p c \<noteq> None"
  by (simp add: update_overall_progress_def)

lemma parse_handbrake_output_Some:
  "0 < total_files \<Longrightarrow> parse_handbrake_output p total_files line \<noteq> None"
  by (simp add: parse_handbrake_output_def Let_def split: option.splits prod.splits)

lemma read_output_ok: "0 < total_files \<Longrightarrow> snd (read_output p total_files lines)"
proof (induction lines)
  case Nil
  then show ?case by simp
next
  case (Cons line lines)
  from parse_handbrake_output_Some [OF Cons.prems, of p "strip line"]
  obtain sigs where "parse_handbrake_output p total_files (strip line) = Some sigs" by auto
  with Cons show ?case by simp
qed

lemma read_output_no_exception: "Uncaught_exception \<notin> set (fst (read_output p total_files lines))"
  by (induction lines) (auto split: option.splits)

lemma transcode_no_exception: "Uncaught_exception \<notin> set (transcode w p total_files m command)"
  using read_output_no_exception [of p total_files]
  by (auto simp: transcode_def Let_def split: option.splits prod.splits)

lemma skip_file_member:
  "x \<in> set evs \<Longrightarrow> x \<in> set (fst (skip_file total_files p evs st))"
  by (auto simp: skip_file_def split: option.splits)

lemma skip_file_no_exception:
  "Uncaught_exception \<notin> set evs \<Longrightarrow> Uncaught_exception \<notin> set (fst (skip_file total_files p evs st))"
  by (auto simp: skip_file_def split: option.splits)

lemma skip_file_Skipped:
  "0 < total_files \<Longrightarrow> fst (snd (skip_file total_files p evs st)) = Skipped"
  by (auto simp: skip_file_def update_overall_progress_def split: option.splits)

lemma encode_file_member:
  "x \<in> set evs \<Longrightarrow> x \<in> set (fst (encode_file w total_files idx p m param evs st))"
  by (auto simp: encode_file_def Let_def split: option.splits)

lemma encode_file_no_exception:
  "Uncaught_exception \<notin> set evs \<Longrightarrow>
     Uncaught_exception \<notin> set (fst (encode_file w total_files idx p m param evs st))"
  using transcode_no_exception [of w p total_files m]
  by (auto simp: encode_file_def Let_def split: option.splits)

lemma encode_file_Encoded:
  "0 < total_files \<Longrightarrow> index (selected_audio_tracks w) (idx - 1) \<noteq> None \<Longrightarrow>
     fst (snd (encode_file w total_files idx p m param evs st)) = Encoded"
  by (auto simp: encode_file_def Let_def update_overall_progress_def split: option.splits)

lemma calculate_video_bitrate_Inr:
  "calculate_video_bitrate fl target duration arg bs = Inr v \<Longrightarrow> fl target \<noteq> None"
  by (auto simp: calculate_video_bitrate_def split: option.splits)

lemma resolve_audio_bitrate_no_crash:
  "index (selected_audio_tracks w) (idx - 1) \<noteq> None \<Longrightarrow>
   resolve_audio_bitrate fl ip w idx m \<noteq> Audio_crash"
  by (auto simp: resolve_audio_bitrate_def Let_def split: option.splits)

lemma process_file_cases:
  obtains (skip) msgs st' where
      "process_file fl ip w total_files idx p m st
         = skip_file total_files p (first_events w total_files idx m @ map Progress msgs) st'"
  | (encode) param st' where
      "process_file fl ip w total_files idx p m st
         = encode_file w total_files idx p m param (first_events w total_files idx m) st'"
  | (crash) st' where
      "process_file fl ip w total_files idx p m st = (first_events w total_files idx m, Crashed, st')"
      "index (selected_audio_tracks w) (idx - 1) = None"
proof (cases "inspected_duration m")
  case None
  then have "process_file fl ip w total_files idx p m st
         = skip_file total_files p (first_events w total_files idx m
             @ map Progress [Error_getting_duration (basename (media_path m))]) st"
    by (simp add: process_file_def first_events_def Let_def)
  then show thesis by (rule skip)
next
  case (Some d)
  show thesis
  proof (cases "resolve_audio_bitrate fl ip w idx m")
    case Audio_crash
    with Some have "process_file fl ip w total_files idx p m st
                      = (first_events w total_files idx m, Crashed, st)"
      by (simp add: process_file_def first_events_def Let_def)
    moreover from Audio_crash have "index (selected_audio_tracks w) (idx - 1) = None"
      using resolve_audio_bitrate_no_crash by blast
    ultimately show thesis by (rule crash)
  next
    case (Audio_skip msg)
    with Some have "process_file fl ip w total_files idx p m st
         = skip_file total_files p (first_events w total_files idx m @ map Progress [msg]) st"
      by (simp add: process_file_def first_events_def Let_def)
    then show thesis by (rule skip)
  next
    case (Audio_values vals)
    show thesis
    proof (cases "calculate_video_bitrate fl (target_size_mb w) (Some d) (target_size_mb w) vals")
      case (Inl e)
      with Some Audio_values have "process_file fl ip w total_files idx p m st
         = skip_file total_files p (first_events w total_files idx m
             @ map Progress [Calculation e, Failed_video_bitrate (basename (media_path m))]) st"
        by (simp add: process_file_def first_events_def Let_def)
      then show thesis by (rule skip)
    next
      case (Inr v)
      from calculate_video_bitrate_Inr [OF Inr] obtain t where t: "fl (target_size_mb w) = Some t"
        by auto
      show thesis
      proof (cases "variable_bitrate w")
        case False
        with Some Audio_values Inr have "process_file fl ip w total_files idx p m st
           = encode_file w total_files idx p m (Bitrate v) (first_events w total_files idx m) st"
          by (simp add: process_file_def first_events_def Let_def)
        then show thesis by (rule encode)
      next
        case True
        obtain r st' where E: "estimate_rf_value fl (ffmpeg_tool m) (sample_encoder m)
                    (destination_folder w) (inspected_duration m) (media_path m) t vals st = (r, st')"
          by (cases "estimate_rf_value fl (ffmpeg_tool m) (sample_encoder m)
                    (destination_folder w) (inspected_duration m) (media_path m) t vals st")
        show thesis
        proof (cases r)
          case None
          with E True Some Audio_values Inr t have "process_file fl ip w total_files idx p m st
             = skip_file total_files p (first_events w total_files idx m
                 @ map Progress [Failed_rf_estimate (basename (media_path m))]) st'"
            by (simp add: process_file_def first_events_def Let_def)
          then show thesis by (rule skip)
        next
          case (Some q)
          with E True \<open>inspected_duration m = Some d\<close> Audio_values Inr t
          have "process_file fl ip w total_files idx p m st
             = encode_file w total_files idx p m (Quality q) (first_events w total_files idx m) st'"
            by (simp add: process_file_def first_events_def Let_def)
          then show thesis by (rule encode)
        qed
      qed
    qed
  qed
qed

lemma first_events_facts:
  "Current_file idx total_files (basename (media_path m)) \<in> set (first_events w total_files idx m)"
  "Uncaught_exception \<notin> set (first_events w total_files idx m)"
  by (simp_all add: first_events_def)

lemma process_file_facts:
  assumes "0 < total_files" and "index (selected_audio_tracks w) (idx - 1) \<noteq> None"
  shows "fst (snd (process_file fl ip w total_files idx p m st)) \<noteq> Crashed"
    and "Current_file idx total_files (basename (media_path m))
           \<in> set (fst (process_file fl ip w total_files idx p m st))"
    and "Uncaught_exception \<notin> set (fst (process_file fl ip w total_files idx p m st))"
proof -
  have "fst (snd (process_file fl ip w total_files idx p m st)) \<noteq> Crashed
        \<and> Current_file idx total_files (basename (media_path m))
             \<in> set (fst (process_file fl ip w total_files idx p m st))
        \<and> Uncaught_exception \<notin> set (fst (process_file fl ip w total_files idx p m st))"
  proof (cases rule: process_file_cases [of fl ip w total_files idx p m st])
    case (skip msgs st')
    have "Uncaught_exception \<notin> set (first_events w total_files idx m @ map Progress msgs)"
      using first_events_facts(2) by auto
    then have 1: "Uncaught_exception \<notin> set (fst (process_file fl ip w total_files idx p m st))"
      unfolding skip by (rule skip_file_no_exception)
    have 2: "Current_file idx total_files (basename (media_path m))
               \<in> set (fst (process_file fl ip w total_files idx p m st))"
      unfolding skip by (rule skip_file_member) (simp add: first_events_facts(1))
    have 3: "fst (snd (process_file fl ip w total_files idx p m st)) = Skipped"
      unfolding skip by (rule skip_file_Skipped [OF assms(1)])
    from 1 2 3 show ?thesis by simp
  next
    case (encode param st')
    have 1: "Uncaught_exception \<notin> set (fst (process_file fl ip w total_files idx p m st))"
      unfolding encode by (rule encode_file_no_exception [OF first_events_facts(2)])
    have 2: "Current_file idx total_files (basename (media_path m))
               \<in> set (fst (process_file fl ip w total_files idx p m st))"
      unfolding encode by (rule encode_file_member [OF first_events_facts(1)])
    have 3: "fst (snd (process_file fl ip w total_files idx p m st)) = Encoded"
      unfolding encode by (rule encode_file_Encoded [OF assms])
    from 1 2 3 show ?thesis by simp
  next
    case (crash st')
    with assms(2) show ?thesis by simp
  qed
  then show "fst (snd (process_file fl ip w total_files idx p m st)) \<noteq> Crashed"
    and "Current_file idx total_files (basename (media_path m))
           \<in> set (fst (process_file fl ip w total_files idx p m st))"
    and "Uncaught_exception \<notin> set (fst (process_file fl ip w total_files idx p m st))"
    by blast+
qed

lemma run_loop_completes:
  assumes "0 < total_files" and "0 < idx"
    and "idx - 1 + length ms \<le> length (selected_audio_tracks w)"
  shows "(\<exists>evs. run_loop fl ip w total_files idx p st ms = evs @ [Emit (Overall_progress 100), Finished])
         \<and> Uncaught_exception \<notin> set (run_loop fl ip w total_files idx p st ms)
         \<and> (\<forall>i<length ms. Current_file (idx + i) total_files (basename (media_path (ms ! i)))
                              \<in> set (run_loop fl ip w total_files idx p st ms))"
  using assms
proof (induction ms arbitrary: idx p st)
  case Nil
  then show ?case by simp
next
  case (Cons m ms)
  from Cons.prems have i: "index (selected_audio_tracks w) (idx - 1) \<noteq> None"
    by (simp add: index_def)
  obtain evs e st' where pf: "process_file fl ip w total_files idx p m st = (evs, e, st')"
    by (cases "process_file fl ip w total_files idx p m st") auto
  from process_file_facts [OF Cons.prems(1) i, where fl = fl and ip = ip and p = p and m = m
      and st = st] pf
  have e: "e \<noteq> Crashed"
    and cur: "Current_file idx total_files (basename (media_path m)) \<in> set evs"
    and nox: "Uncaught_exception \<notin> set evs"
    by simp_all
  define p' where "p' = (if e = Encoded then Suc p else p)"
  from e pf have unfold: "run_loop fl ip w total_files idx p st (m # ms)
                    = evs @ run_loop fl ip w total_files (Suc idx) p' st' ms"
    by (cases e) (simp_all add: p'_def)
  from Cons.prems have "Suc idx - 1 + length ms \<le> length (selected_audio_tracks w)"
    by simp
  from Cons.IH [OF Cons.prems(1) _ this, where p = p' and st = st']
  obtain rest where r: "run_loop fl ip w total_files (Suc idx) p' st' ms
                          = rest @ [Emit (Overall_progress 100), Finished]"
    and n: "Uncaught_exception \<notin> set (run_loop fl ip w total_files (Suc idx) p' st' ms)"
    and c: "\<forall>i<length ms. Current_file (Suc idx + i) total_files (basename (media_path (ms ! i)))
                              \<in> set (run_loop fl ip w total_files (Suc idx) p' st' ms)"
    by auto
  have 1: "\<exists>evs'. run_loop fl ip w total_files idx p st (m # ms)
                    = evs' @ [Emit (Overall_progress 100), Finished]"
    unfolding unfold r by (rule exI [of _ "evs @ rest"]) simp
  have 2: "Uncaught_exception \<notin> set (run_loop fl ip w total_files idx p st (m # ms))"
    unfolding unfold using nox n by simp
  have 3: "\<forall>i<length (m # ms). Current_file (idx + i) total_files (basename (media_path ((m # ms) ! i)))
                              \<in> set (run_loop fl ip w total_files idx p st (m # ms))"
  proof (intro allI impI)
    fix i assume "i < length (m # ms)"
    then show "Current_file (idx + i) total_files (basename (media_path ((m # ms) ! i)))
                 \<in> set (run_loop fl ip w total_files idx p st (m # ms))"
      unfolding unfold using cur c by (cases i) auto
  qed
  from 1 2 3 show ?case by blast
qed

lemma process_file_mismatch:
  assumes enc: "selected_audio_encoder w \<noteq> ''copy''"
    and ab: "truthy (audio_bitrate w)"
    and valid: "\<not> list_ex (\<lambda>bitrate. ip bitrate = None) (configured_bitrate_values w)"
    and sel: "index (selected_audio_tracks w) (idx - 1) = Some sel"
    and mis: "length (filter (\<lambda>i. i < length (configured_bitrate_values w)) sel) \<noteq> length sel"
    and dur: "inspected_duration m = Some d"
    and tot: "0 < total_files"
  shows "process_file fl ip w total_files idx p m st
           = (first_events w total_files idx m
                @ [Progress (Track_mismatch (basename (media_path m))),
                   Emit (Overall_progress (py_int (of_nat p / of_nat total_files * 100)))],
              Skipped, st)"
proof -
  from enc ab valid sel mis
  have "resolve_audio_bitrate fl ip w idx m = Audio_skip (Track_mismatch (basename (media_path m)))"
    by (simp add: resolve_audio_bitrate_def Let_def)
  with dur tot show ?thesis
    by (simp add: process_file_def first_events_def Let_def skip_file_def update_overall_progress_def)
qed

lemma encode_file_nonzero_exit:
  assumes tot: "0 < total_files"
    and sel: "index (selected_audio_tracks w) (idx - 1) = Some sel"
    and tr: "transcoder m (handbrake_command w (media_path m) param sel) = Some (lines, returncode)"
    and rc: "returncode \<noteq> 0"
  shows "encode_file w total_files idx p m param evs st
           = (evs @ [Progress Encoding_summary,
                     Progress (Handbrake_command (handbrake_command w (media_path m) param sel))]
                @ fst (read_output p total_files lines)
                @ [Progress (Handbrake_error (basename (media_path m))),
                   Emit (Current_file_progress 0),
                   Emit (Overall_progress (py_int (of_nat (p + 1) / of_nat total_files * 100)))],
              Encoded, st)"
  using assms read_output_ok [OF tot, of p lines]
  by (simp add: encode_file_def transcode_def Let_def update_overall_progress_def)

section \<open>The claim about the batch\<close>

text \<open>
  Claim C8. With one list of selected tracks per file, as the caller builds them, no
  file ends the batch: the loop takes up every file in turn and the run ends with the
  overall progress at 100 and the finished signal. When the audio encoder is not
  pass-through and fewer bitrate values apply to a file's selected tracks than it has
  selected tracks, the file is reported as a mismatch and skipped, without a transcoder
  run. When the transcoder exits non-zero the file is reported as failed. In both cases
  the loop body ends normally and the next file follows.
\<close>

theorem run_continues_after_failures:
  assumes len: "length media_files \<le> length (selected_audio_tracks w)"
  shows "(\<exists>evs. run fl ip w media_files st
                 = Progress Starting_encoding # evs @ [Emit (Overall_progress 100), Finished])
         \<and> Uncaught_exception \<notin> set (run fl ip w media_files st)
         \<and> (\<forall>i<length media_files.
               Current_file (Suc i) (length media_files) (basename (media_path (media_files ! i)))
                 \<in> set (run fl ip w media_files st))
         \<and> (selected_audio_encoder w \<noteq> ''copy'' \<and> truthy (audio_bitrate w)
              \<and> \<not> list_ex (\<lambda>bitrate. ip bitrate = None) (configured_bitrate_values w)
              \<and> index (selected_audio_tracks w) (idx - 1) = Some sel
              \<and> length (filter (\<lambda>i. i < length (configured_bitrate_values w)) sel) \<noteq> length sel
              \<and> inspected_duration m = Some d \<and> 0 < total_files
            \<longrightarrow> process_file fl ip w total_files idx p m st1
                  = (first_events w total_files idx m
                       @ [Progress (Track_mismatch (basename (media_path m))),
                          Emit (Overall_progress (py_int (of_nat p / of_nat total_files * 100)))],
                     Skipped, st1))
         \<and> (0 < total_files' \<and> index (selected_audio_tracks w) (idx' - 1) = Some sel'
              \<and> transcoder m' (handbrake_command w (media_path m') param sel')
                   = Some (lines, returncode)
              \<and> returncode \<noteq> 0
            \<longrightarrow> encode_file w total_files' idx' p' m' param evs' st2
                  = (evs' @ [Progress Encoding_summary,
                             Progress (Handbrake_command
                                         (handbrake_command w (media_path m') param sel'))]
                       @ fst (read_output p' total_files' lines)
                       @ [Progress (Handbrake_error (basename (media_path m'))),
                          Emit (Current_file_progress 0),
                          Emit (Overall_progress
                                  (py_int (of_nat (p' + 1) / of_nat total_files' * 100)))],
                     Encoded, st2))"
proof -
  have run: "(\<exists>evs. run fl ip w media_files st
                 = Progress Starting_encoding # evs @ [Emit (Overall_progress 100), Finished])
         \<and> Uncaught_exception \<notin> set (run fl ip w media_files st)
         \<and> (\<forall>i<length media_files.
               Current_file (Suc i) (length media_files) (basename (media_path (media_files ! i)))
                 \<in> set (run fl ip w media_files st))"
  proof (cases "media_files = []")
    case True
    then show ?thesis by (simp add: run_def)
  next
    case False
    then have pos: "0 < length media_files" by simp
    from len have "1 - 1 + length media_files \<le> length (selected_audio_tracks w)" by simp
    from run_loop_completes [OF pos _ this, where fl = fl and ip = ip and p = 0 and st = st]
    show ?thesis by (auto simp: run_def)
  qed
  have mismatch: "selected_audio_encoder w \<noteq> ''copy'' \<and> truthy (audio_bitrate w)
              \<and> \<not> list_ex (\<lambda>bitrate. ip bitrate = None) (configured_bitrate_values w)
              \<and> index (selected_audio_tracks w) (idx - 1) = Some sel
              \<and> length (filter (\<lambda>i. i < length (configured_bitrate_values w)) sel) \<noteq> length sel
              \<and> inspected_duration m = Some d \<and> 0 < total_files
            \<longrightarrow> process_file fl ip w total_files idx p m st1
                  = (first_events w total_files idx m
                       @ [Progress (Track_mismatch (basename (media_path m))),
                          Emit (Overall_progress (py_int (of_nat p / of_nat total_files * 100)))],
                     Skipped, st1)"
    using process_file_mismatch by blast
  have nonzero: "0 < total_files' \<and> index (selected_audio_tracks w) (idx' - 1) = Some sel'
              \<and> transcoder m' (handbrake_command w (media_path m') param sel')
                   = Some (lines, returncode)
              \<and> returncode \<noteq> 0
            \<longrightarrow> encode_file w total_files' idx' p' m' param evs' st2
                  = (evs' @ [Progress Encoding_summary,
                             Progress (Handbrake_command
                                         (handbrake_command w (media_path m') param sel'))]
                       @ fst (read_output p' total_files' lines)
                       @ [Progress (Handbrake_error (basename (media_path m'))),
                          Emit (Current_file_progress 0),
                          Emit (Overall_progress
                                  (py_int (of_nat (p' + 1) / of_nat total_files' * 100)))],
                     Encoded, st2)"
    using encode_file_nonzero_exit by blast
  from run mismatch nonzero show ?thesis by blast
qed

theorem run_continues_after_failures_witness:
  "length [example_media ''/v/a.mkv'' 1, example_media ''/v/b.mkv'' 0, example_media ''/v/c.mkv'' 0]
     \<le> length (selected_audio_tracks example_worker)
   \<and> run example_float example_int example_worker
        [example_media ''/v/a.mkv'' 1, example_media ''/v/b.mkv'' 0, example_media ''/v/c.mkv'' 0]
        no_files
      = [Progress Starting_encoding, Current_file 1 3 ''a.mkv'',
  Progress (Processing ''a.mkv''), Emit (Current_file_progress 0),
  Progress Encoding_summary,
  Progress
   (Handbrake_command
     \<lparr>hb_i = ''/v/a.mkv'', hb_o_folder = ''/out'', hb_o_name = ''a.mkv'',
        hb_preset = None, hb_q = None, hb_b = Some 1407,
        hb_multi_pass = Some False, hb_all_subtitles = True,
        hb_e = Some ''x264'', hb_a = Some [1, 2], hb_B = Some ''128, 96'',
        hb_E = Some ''av_aac''\<rparr>),
  Handbrake_output ''Encoding: task 1 of 1, 50.00 %'',
  Emit (Overall_progress 16), Emit (Current_file_progress 50),
  Progress (Handbrake_error ''a.mkv''), Emit (Current_file_progress 0),
  Emit (Overall_progress 33), Current_file 2 3 ''b.mkv'',
  Progress (Processing ''b.mkv''), Emit (Current_file_progress 0),
  Progress (Track_mismatch ''b.mkv''), Emit (Overall_progress 33),
  Current_file 3 3 ''c.mkv'', Progress (Processing ''c.mkv''),
  Emit (Current_file_progress 0), Progress Encoding_summary,
  Progress
   (Handbrake_command
     \<lparr>hb_i = ''/v/c.mkv'', hb_o_folder = ''/out'', hb_o_name = ''c.mkv'',
        hb_preset = None, hb_q = None, hb_b = Some 1503,
        hb_multi_pass = Some False, hb_all_subtitles = True,
        hb_e = Some ''x264'', hb_a = Some [1], hb_B = Some ''128, 96'',
        hb_E = Some ''av_aac''\<rparr>),
  Handbrake_output ''Encoding: task 1 of 1, 50.00 %'',
  Emit (Overall_progress 50), Emit (Current_file_progress 50),
  Emit (Current_file_progress 100), Progress (Completed ''c.mkv''),
  Delete_file_signal ''/v/c.mkv'' ''Never'', Emit (Overall_progress 66),
  Emit (Overall_progress 100), Finished]
   \<and> Uncaught_exception \<notin> set (run example_float example_int example_worker
        [example_media ''/v/a.mkv'' 1, example_media ''/v/b.mkv'' 0, example_media ''/v/c.mkv'' 0]
        no_files)
   \<and> process_file example_float example_int example_worker 3 2 1 (example_media ''/v/b.mkv'' 0)
        no_files
      = ([Current_file 2 3 ''b.mkv'', Progress (Processing ''b.mkv''),
          Emit (Current_file_progress 0), Progress (Track_mismatch ''b.mkv''),
          Emit (Overall_progress 33)], Skipped, no_files)
   \<and> fst (snd (encode_file example_worker 3 1 0 (example_media ''/v/a.mkv'' 1) (Bitrate 1407) []
                  no_files)) = Encoded"
proof -
  let ?ms = "[example_media ''/v/a.mkv'' 1, example_media ''/v/b.mkv'' 0,
              example_media ''/v/c.mkv'' 0]"
  have len: "length ?ms \<le> length (selected_audio_tracks example_worker)"
    by code_simp
  have ev: "run example_float example_int example_worker ?ms no_files
      = [Progress Starting_encoding, Current_file 1 3 ''a.mkv'',
  Progress (Processing ''a.mkv''), Emit (Current_file_progress 0),
  Progress Encoding_summary,
  Progress
   (Handbrake_command
     \<lparr>hb_i = ''/v/a.mkv'', hb_o_folder = ''/out'', hb_o_name = ''a.mkv'',
        hb_preset = None, hb_q = None, hb_b = Some 1407,
        hb_multi_pass = Some False, hb_all_subtitles = True,
        hb_e = Some ''x264'', hb_a = Some [1, 2], hb_B = Some ''128, 96'',
        hb_E = Some ''av_aac''\<rparr>),
  Handbrake_output ''Encoding: task 1 of 1, 50.00 %'',
  Emit (Overall_progress 16), Emit (Current_file_progress 50),
  Progress (Handbrake_error ''a.mkv''), Emit (Current_file_progress 0),
  Emit (Overall_progress 33), Current_file 2 3 ''b.mkv'',
  Progress (Processing ''b.mkv''), Emit (Current_file_progress 0),
  Progress (Track_mismatch ''b.mkv''), Emit (Overall_progress 33),
  Current_file 3 3 ''c.mkv'', Progress (Processing ''c.mkv''),
  Emit (Current_file_progress 0), Progress Encoding_summary,
  Progress
   (Handbrake_command
     \<lparr>hb_i = ''/v/c.mkv'', hb_o_folder = ''/out'', hb_o_name = ''c.mkv'',
        hb_preset = None, hb_q = None, hb_b = Some 1503,
        hb_multi_pass = Some False, hb_all_subtitles = True,
        hb_e = Some ''x264'', hb_a = Some [1], hb_B = Some ''128, 96'',
        hb_E = Some ''av_aac''\<rparr>),
  Handbrake_output ''Encoding: task 1 of 1, 50.00 %'',
  Emit (Overall_progress 50), Emit (Current_file_progress 50),
  Emit (Current_file_progress 100), Progress (Completed ''c.mkv''),
  Delete_file_signal ''/v/c.mkv'' ''Never'', Emit (Overall_progress 66),
  Emit (Overall_progress 100), Finished]"
    by code_simp
  have mis: "selected_audio_encoder example_worker \<noteq> ''copy'' \<and> truthy (audio_bitrate example_worker)
      \<and> \<not> list_ex (\<lambda>bitrate. example_int bitrate = None) (configured_bitrate_values example_worker)
      \<and> index (selected_audio_tracks example_worker) (2 - 1) = Some [0, 1, 2]
      \<and> length (filter (\<lambda>i. i < length (configured_bitrate_values example_worker)) [0, 1, 2])
          \<noteq> length [0, 1, 2 :: nat]
      \<and> inspected_duration (example_media ''/v/b.mkv'' 0) = Some 3600 \<and> (0::nat) < 3"
    by code_simp
  have nz: "(0::nat) < 3 \<and> index (selected_audio_tracks example_worker) (1 - 1) = Some [0, 1]
      \<and> transcoder (example_media ''/v/a.mkv'' 1)
           (handbrake_command example_worker (media_path (example_media ''/v/a.mkv'' 1))
              (Bitrate 1407) [0, 1])
         = Some ([''Encoding: task 1 of 1, 50.00 %''], 1)
      \<and> (1::int) \<noteq> 0"
    by code_simp
  note T = run_continues_after_failures [OF len, where fl = example_float and ip = example_int
      and st = no_files and idx = 2 and sel = "[0, 1, 2]" and m = "example_media ''/v/b.mkv'' 0"
      and d = 3600 and total_files = 3 and p = 1 and ?st1.0 = no_files and total_files' = 3
      and idx' = 1 and sel' = "[0, 1]" and m' = "example_media ''/v/a.mkv'' 1"
      and param = "Bitrate 1407" and lines = "[''Encoding: task 1 of 1, 50.00 %'']"
      and returncode = 1 and p' = 0 and evs' = "[]" and ?st2.0 = no_files]
  from T have nox: "Uncaught_exception \<notin> set (run example_float example_int example_worker ?ms
                       no_files)"
    by (rule conjunct2 [THEN conjunct1])
  from T have "process_file example_float example_int example_worker 3 2 1
                 (example_media ''/v/b.mkv'' 0) no_files
               = (first_events example_worker 3 2 (example_media ''/v/b.mkv'' 0)
                    @ [Progress (Track_mismatch (basename (media_path (example_media ''/v/b.mkv'' 0)))),
                       Emit (Overall_progress (py_int (of_nat 1 / of_nat 3 * 100)))],
                  Skipped, no_files)"
    by (rule conjunct2 [THEN conjunct2, THEN conjunct2, THEN conjunct1, THEN mp, OF _ mis])
  moreover have "first_events example_worker 3 2 (example_media ''/v/b.mkv'' 0)
                    @ [Progress (Track_mismatch (basename (media_path (example_media ''/v/b.mkv'' 0)))),
                       Emit (Overall_progress (py_int (of_nat 1 / of_nat 3 * 100)))]
      = [Current_file 2 3 ''b.mkv'', Progress (Processing ''b.mkv''),
          Emit (Current_file_progress 0), Progress (Track_mismatch ''b.mkv''),
          Emit (Overall_progress 33)]"
    by code_simp
  ultimately have pf: "process_file example_float example_int example_worker 3 2 1
        (example_media ''/v/b.mkv'' 0) no_files
      = ([Current_file 2 3 ''b.mkv'', Progress (Processing ''b.mkv''),
          Emit (Current_file_progress 0), Progress (Track_mismatch ''b.mkv''),
          Emit (Overall_progress 33)], Skipped, no_files)"
    by simp
  from T have "encode_file example_worker 3 1 0 (example_media ''/v/a.mkv'' 1) (Bitrate 1407) []
                 no_files
      = ([] @ [Progress Encoding_summary,
               Progress (Handbrake_command
                  (handbrake_command example_worker (media_path (example_media ''/v/a.mkv'' 1))
                     (Bitrate 1407) [0, 1]))]
            @ fst (read_output 0 3 [''Encoding: task 1 of 1, 50.00 %''])
            @ [Progress (Handbrake_error (basename (media_path (example_media ''/v/a.mkv'' 1)))),
               Emit (Current_file_progress 0),
               Emit (Overall_progress (py_int (of_nat (0 + 1) / of_nat 3 * 100)))],
         Encoded, no_files)"
    by (rule conjunct2 [THEN conjunct2, THEN conjunct2, THEN conjunct2, THEN mp, OF _ nz])
  then have ef: "fst (snd (encode_file example_worker 3 1 0 (example_media ''/v/a.mkv'' 1)
                             (Bitrate 1407) [] no_files)) = Encoded"
    by simp
  from len ev nox pf ef show ?thesis by (intro conjI)
qed

section \<open>The claim about failures of the bitrate calculation\<close>










section \<open>The claim about pass-through audio\<close>





end
